theory Spec2Isabelle
  imports Complex_Main
begin

section \<open>Errors\<close>

text \<open>
  Go errors are values compared by identity.  The package declares three of them once
  (\<^verbatim>\<open>ErrBadRequest\<close>, \<^verbatim>\<open>ErrForbidden\<close>, \<^verbatim>\<open>ErrNotFound\<close>), each by its own call of
  \<^verbatim>\<open>errors.New\<close>; they are three constructors.  \<open>ErrorsNew s\<close> is a value made by a later
  call \<^verbatim>\<open>errors.New(s)\<close>: it is a new allocation, so it is never one of the three package
  values, whatever its text.  The other constructors are the error types of the standard
  library that reach the caller of this package: \<^verbatim>\<open>url.Error\<close>, \<^verbatim>\<open>url.EscapeError\<close>,
  \<^verbatim>\<open>url.InvalidHostError\<close>, the port error of \<^verbatim>\<open>net/url\<close> and the method error of
  \<^verbatim>\<open>net/http\<close> (both made by \<^verbatim>\<open>fmt.Errorf\<close>, kept here with the offending text),
  what \<^verbatim>\<open>http.Client.Do\<close> reports and what the JSON decoder reports.
\<close>

datatype error =
    ErrBadRequest
  | ErrForbidden
  | ErrNotFound
  | ErrorsNew string
  | UrlError string string error
  | EscapeError string
  | InvalidHostError string
  | InvalidPortError string
  | InvalidMethodError string
  | TransportError string
  | DecodeError string

section \<open>The standard library functions the package calls\<close>

subsection \<open>\<^verbatim>\<open>net/http\<close>: \<^verbatim>\<open>StatusText\<close>\<close>

definition StatusText :: "int \<Rightarrow> string" where
  "StatusText code =
    (if code = 100 then ''Continue''
     else if code = 101 then ''Switching Protocols''
     else if code = 102 then ''Processing''
     else if code = 103 then ''Early Hints''
     else if code = 200 then ''OK''
     else if code = 201 then ''Created''
     else if code = 202 then ''Accepted''
     else if code = 203 then ''Non-Authoritative Information''
     else if code = 204 then ''No Content''
     else if code = 205 then ''Reset Content''
     else if code = 206 then ''Partial Content''
     else if code = 207 then ''Multi-Status''
     else if code = 208 then ''Already Reported''
     else if code = 226 then ''IM Used''
     else if code = 300 then ''Multiple Choices''
     else if code = 301 then ''Moved Permanently''
     else if code = 302 then ''Found''
     else if code = 303 then ''See Other''
     else if code = 304 then ''Not Modified''
     else if code = 305 then ''Use Proxy''
     else if code = 307 then ''Temporary Redirect''
     else if code = 308 then ''Permanent Redirect''
     else if code = 400 then ''Bad Request''
     else if code = 401 then ''Unauthorized''
     else if code = 402 then ''Payment Required''
     else if code = 403 then ''Forbidden''
     else if code = 404 then ''Not Found''
     else if code = 405 then ''Method Not Allowed''
     else if code = 406 then ''Not Acceptable''
     else if code = 407 then ''Proxy Authentication Required''
     else if code = 408 then ''Request Timeout''
     else if code = 409 then ''Conflict''
     else if code = 410 then ''Gone''
     else if code = 411 then ''Length Required''
     else if code = 412 then ''Precondition Failed''
     else if code = 413 then ''Request Entity Too Large''
     else if code = 414 then ''Request URI Too Long''
     else if code = 415 then ''Unsupported Media Type''
     else if code = 416 then ''Requested Range Not Satisfiable''
     else if code = 417 then ''Expectation Failed''
     else if code = 418 then ''I'm a teapot''
     else if code = 421 then ''Misdirected Request''
     else if code = 422 then ''Unprocessable Entity''
     else if code = 423 then ''Locked''
     else if code = 424 then ''Failed Dependency''
     else if code = 425 then ''Too Early''
     else if code = 426 then ''Upgrade Required''
     else if code = 428 then ''Precondition Required''
     else if code = 429 then ''Too Many Requests''
     else if code = 431 then ''Request Header Fields Too Large''
     else if code = 451 then ''Unavailable For Legal Reasons''
     else if code = 500 then ''Internal Server Error''
     else if code = 501 then ''Not Implemented''
     else if code = 502 then ''Bad Gateway''
     else if code = 503 then ''Service Unavailable''
     else if code = 504 then ''Gateway Timeout''
     else if code = 505 then ''HTTP Version Not Supported''
     else if code = 506 then ''Variant Also Negotiates''
     else if code = 507 then ''Insufficient Storage''
     else if code = 508 then ''Loop Detected''
     else if code = 510 then ''Not Extended''
     else if code = 511 then ''Network Authentication Required''
     else [])"

text \<open>
  The text of an error made by \<^verbatim>\<open>errors.New\<close> is the string it was made from.  The three
  package values are made from \<^verbatim>\<open>http.StatusText\<close> of their status (lines 20 to 22 of the
  source).  The texts of the other error types quote their argument with
  \<^verbatim>\<open>strconv.Quote\<close>, which is not modelled: \<open>Error\<close> is \<open>None\<close> there.
\<close>

fun Error :: "error \<Rightarrow> string option" where
  "Error ErrBadRequest = Some (StatusText 400)"
| "Error ErrForbidden = Some (StatusText 403)"
| "Error ErrNotFound = Some (StatusText 404)"
| "Error (ErrorsNew s) = Some s"
| "Error (TransportError s) = Some s"
| "Error (DecodeError s) = Some s"
| "Error _ = None"

subsection \<open>\<^verbatim>\<open>net/url\<close>: bytes\<close>

text \<open>A Go string is a sequence of bytes; so is a \<^typ>\<open>string\<close> here.\<close>

definition byte :: "char \<Rightarrow> nat" where
  "byte c = of_char c"

definition is_lower :: "char \<Rightarrow> bool" where
  "is_lower c \<longleftrightarrow> byte CHR ''a'' \<le> byte c \<and> byte c \<le> byte CHR ''z''"

definition is_upper :: "char \<Rightarrow> bool" where
  "is_upper c \<longleftrightarrow> byte CHR ''A'' \<le> byte c \<and> byte c \<le> byte CHR ''Z''"

definition is_digit :: "char \<Rightarrow> bool" where
  "is_digit c \<longleftrightarrow> byte CHR ''0'' \<le> byte c \<and> byte c \<le> byte CHR ''9''"

definition ishex :: "char \<Rightarrow> bool" where
  "ishex c \<longleftrightarrow> is_digit c
     \<or> (byte CHR ''a'' \<le> byte c \<and> byte c \<le> byte CHR ''f'')
     \<or> (byte CHR ''A'' \<le> byte c \<and> byte c \<le> byte CHR ''F'')"

definition unhex :: "char \<Rightarrow> nat" where
  "unhex c =
    (if is_digit c then byte c - byte CHR ''0''
     else if byte CHR ''a'' \<le> byte c \<and> byte c \<le> byte CHR ''f'' then byte c - byte CHR ''a'' + 10
     else if byte CHR ''A'' \<le> byte c \<and> byte c \<le> byte CHR ''F'' then byte c - byte CHR ''A'' + 10
     else 0)"

definition upperhex :: "nat \<Rightarrow> char" where
  "upperhex n = ''0123456789ABCDEF'' ! (n mod 16)"

definition ToLower :: "string \<Rightarrow> string" where
  "ToLower s = map (\<lambda>c. if is_upper c then char_of (byte c + 32) else c) s"

text \<open>\<^verbatim>\<open>strings.Cut(s, sep)\<close> for a separator of one byte: before, after, found.\<close>

definition Cut :: "string \<Rightarrow> char \<Rightarrow> string \<times> string \<times> bool" where
  "Cut s sep =
    (if sep \<in> set s then (takeWhile (\<lambda>c. c \<noteq> sep) s, tl (dropWhile (\<lambda>c. c \<noteq> sep) s), True)
     else (s, [], False))"

text \<open>\<^verbatim>\<open>strings.LastIndex(s, sep)\<close> for a separator of one byte; \<open>None\<close> is Go's \<open>-1\<close>.\<close>

definition LastIndex :: "string \<Rightarrow> char \<Rightarrow> nat option" where
  "LastIndex s sep =
    (if sep \<in> set s then Some (length s - 1 - length (takeWhile (\<lambda>c. c \<noteq> sep) (rev s)))
     else None)"

text \<open>\<^verbatim>\<open>strings.Index(s, sub)\<close>; \<open>None\<close> is Go's \<open>-1\<close>.\<close>

fun Index :: "string \<Rightarrow> string \<Rightarrow> nat option" where
  "Index [] sub = (if sub = [] then Some 0 else None)"
| "Index (c # s) sub =
    (if take (length sub) (c # s) = sub then Some 0
     else map_option Suc (Index s sub))"

definition HasPrefix :: "string \<Rightarrow> string \<Rightarrow> bool" where
  "HasPrefix s p \<longleftrightarrow> take (length p) s = p"

definition HasSuffix :: "string \<Rightarrow> string \<Rightarrow> bool" where
  "HasSuffix s p \<longleftrightarrow> length p \<le> length s \<and> drop (length s - length p) s = p"

definition stringContainsCTLByte :: "string \<Rightarrow> bool" where
  "stringContainsCTLByte s \<longleftrightarrow> list_ex (\<lambda>c. byte c < 32 \<or> byte c = 127) s"

subsection \<open>\<^verbatim>\<open>net/url\<close>: escaping\<close>

text \<open>
  The functions of this subsection and the next follow \<^verbatim>\<open>net/url/url.go\<close> of Go 1.21,
  function by function and under the same names.
\<close>

datatype encoding =
    encodePath
  | encodePathSegment
  | encodeHost
  | encodeZone
  | encodeUserPassword
  | encodeQueryComponent
  | encodeFragment

definition shouldEscape :: "char \<Rightarrow> encoding \<Rightarrow> bool" where
  "shouldEscape c mode =
    (if is_lower c \<or> is_upper c \<or> is_digit c then False
     else if (mode = encodeHost \<or> mode = encodeZone) \<and> c \<in> set ''!$&'()*+,;=:[]<>\"'' then False
     else if c \<in> set ''-_.~'' then False
     else if c \<in> set ''$&+,/:;=?@'' \<and> mode = encodePath then c = CHR ''?''
     else if c \<in> set ''$&+,/:;=?@'' \<and> mode = encodePathSegment then c \<in> set ''/;,?''
     else if c \<in> set ''$&+,/:;=?@'' \<and> mode = encodeUserPassword then c \<in> set ''@/?:''
     else if c \<in> set ''$&+,/:;=?@'' \<and> mode = encodeQueryComponent then True
     else if c \<in> set ''$&+,/:;=?@'' \<and> mode = encodeFragment then False
     else if mode = encodeFragment \<and> c \<in> set ''!()*'' then False
     else True)"

text \<open>The first loop of \<^verbatim>\<open>unescape\<close>: the escapes are well formed and allowed in this mode.\<close>

fun unescape_check :: "encoding \<Rightarrow> string \<Rightarrow> error option" where
  "unescape_check mode [] = None"
| "unescape_check mode (c # s) =
    (if c = CHR ''%'' then
       (if length s < 2 \<or> \<not> ishex (s ! 0) \<or> \<not> ishex (s ! 1) then
          Some (EscapeError (take 3 (c # s)))
        else if mode = encodeHost \<and> unhex (s ! 0) < 8 \<and> take 3 (c # s) \<noteq> ''%25'' then
          Some (EscapeError (take 3 (c # s)))
        else if mode = encodeZone \<and> take 3 (c # s) \<noteq> ''%25''
                \<and> unhex (s ! 0) * 16 + unhex (s ! 1) \<noteq> 32
                \<and> shouldEscape (char_of (unhex (s ! 0) * 16 + unhex (s ! 1))) encodeHost then
          Some (EscapeError (take 3 (c # s)))
        else unescape_check mode (drop 2 s))
     else if c = CHR ''+'' then unescape_check mode s
     else if (mode = encodeHost \<or> mode = encodeZone) \<and> byte c < 128
             \<and> shouldEscape c encodeHost then
       Some (InvalidHostError [c])
     else unescape_check mode s)"

text \<open>The second loop of \<^verbatim>\<open>unescape\<close>, run only after the first found no error.\<close>

fun unescape_bytes :: "encoding \<Rightarrow> string \<Rightarrow> string" where
  "unescape_bytes mode [] = []"
| "unescape_bytes mode (c # s) =
    (if c = CHR ''%'' then
       char_of (unhex (s ! 0) * 16 + unhex (s ! 1)) # unescape_bytes mode (drop 2 s)
     else if c = CHR ''+'' then
       (if mode = encodeQueryComponent then CHR '' '' else CHR ''+'') # unescape_bytes mode s
     else c # unescape_bytes mode s)"

definition unescape :: "string \<Rightarrow> encoding \<Rightarrow> error + string" where
  "unescape s mode =
    (case unescape_check mode s of
       Some err \<Rightarrow> Inl err
     | None \<Rightarrow> Inr (unescape_bytes mode s))"

definition escape :: "string \<Rightarrow> encoding \<Rightarrow> string" where
  "escape s mode =
    concat (map (\<lambda>c.
      if c = CHR '' '' \<and> mode = encodeQueryComponent then ''+''
      else if shouldEscape c mode then
        [CHR ''%'', upperhex (byte c div 16), upperhex (byte c mod 16)]
      else [c]) s)"

definition QueryEscape :: "string \<Rightarrow> string" where
  "QueryEscape s = escape s encodeQueryComponent"

subsection \<open>\<^verbatim>\<open>net/url\<close>: parsing\<close>

record Userinfo =
  username :: string
  password :: string
  passwordSet :: bool

record URL =
  Scheme :: string
  Opaque :: string
  User :: "Userinfo option"
  Host :: string
  Path :: string
  RawPath :: string
  OmitHost :: bool
  ForceQuery :: bool
  RawQuery :: string
  Fragment :: string
  RawFragment :: string

text \<open>The value of \<^verbatim>\<open>new(URL)\<close>: every field zero.\<close>

definition new_URL :: URL where
  "new_URL = \<lparr>Scheme = [], Opaque = [], User = None, Host = [], Path = [], RawPath = [],
     OmitHost = False, ForceQuery = False, RawQuery = [], Fragment = [], RawFragment = []\<rparr>"

text \<open>
  \<^verbatim>\<open>getScheme\<close>: the loop over the bytes of \<open>rawURL\<close>; \<open>pre\<close> is \<^verbatim>\<open>rawURL[:i]\<close> and the list
  argument is \<^verbatim>\<open>rawURL[i:]\<close>.
\<close>

fun getScheme_loop :: "string \<Rightarrow> string \<Rightarrow> string \<Rightarrow> error + (string \<times> string)" where
  "getScheme_loop rawURL pre [] = Inr ([], rawURL)"
| "getScheme_loop rawURL pre (c # s) =
    (if is_lower c \<or> is_upper c then getScheme_loop rawURL (pre @ [c]) s
     else if is_digit c \<or> c = CHR ''+'' \<or> c = CHR ''-'' \<or> c = CHR ''.'' then
       (if pre = [] then Inr ([], rawURL) else getScheme_loop rawURL (pre @ [c]) s)
     else if c = CHR '':'' then
       (if pre = [] then Inl (ErrorsNew ''missing protocol scheme'') else Inr (pre, s))
     else Inr ([], rawURL))"

definition getScheme :: "string \<Rightarrow> error + (string \<times> string)" where
  "getScheme rawURL = getScheme_loop rawURL [] rawURL"

definition validOptionalPort :: "string \<Rightarrow> bool" where
  "validOptionalPort port =
    (if port = [] then True
     else if hd port \<noteq> CHR '':'' then False
     else list_all is_digit (tl port))"

definition validUserinfo :: "string \<Rightarrow> bool" where
  "validUserinfo s =
    list_all (\<lambda>r. is_upper r \<or> is_lower r \<or> is_digit r \<or> r \<in> set ''-._:~!$&'()*+,;=%@'') s"

definition parseHost :: "string \<Rightarrow> error + string" where
  "parseHost host =
    (if HasPrefix host ''['' then
       (case LastIndex host CHR '']'' of
          None \<Rightarrow> Inl (ErrorsNew ''missing ']' in host'')
        | Some i \<Rightarrow>
            if \<not> validOptionalPort (drop (i + 1) host) then
              Inl (InvalidPortError (drop (i + 1) host))
            else
              (case Index (take i host) ''%25'' of
                 Some zone \<Rightarrow>
                   (case unescape (take zone host) encodeHost of
                      Inl err \<Rightarrow> Inl err
                    | Inr host1 \<Rightarrow>
                        (case unescape (drop zone (take i host)) encodeZone of
                           Inl err \<Rightarrow> Inl err
                         | Inr host2 \<Rightarrow>
                             (case unescape (drop i host) encodeHost of
                                Inl err \<Rightarrow> Inl err
                              | Inr host3 \<Rightarrow> Inr (host1 @ host2 @ host3))))
               | None \<Rightarrow> unescape host encodeHost))
     else
       (case LastIndex host CHR '':'' of
          Some i \<Rightarrow>
            if \<not> validOptionalPort (drop i host) then Inl (InvalidPortError (drop i host))
            else unescape host encodeHost
        | None \<Rightarrow> unescape host encodeHost))"

definition parseAuthority :: "string \<Rightarrow> error + (Userinfo option \<times> string)" where
  "parseAuthority authority =
    (case LastIndex authority CHR ''@'' of
       None \<Rightarrow>
         (case parseHost authority of
            Inl err \<Rightarrow> Inl err
          | Inr host \<Rightarrow> Inr (None, host))
     | Some i \<Rightarrow>
         (case parseHost (drop (i + 1) authority) of
            Inl err \<Rightarrow> Inl err
          | Inr host \<Rightarrow>
              let userinfo = take i authority in
              if \<not> validUserinfo userinfo then Inl (ErrorsNew ''net/url: invalid userinfo'')
              else if CHR '':'' \<notin> set userinfo then
                (case unescape userinfo encodeUserPassword of
                   Inl err \<Rightarrow> Inl err
                 | Inr u \<Rightarrow>
                     Inr (Some \<lparr>username = u, password = [], passwordSet = False\<rparr>, host))
              else
                (case Cut userinfo CHR '':'' of
                   (username0, password0, _) \<Rightarrow>
                     (case unescape username0 encodeUserPassword of
                        Inl err \<Rightarrow> Inl err
                      | Inr u \<Rightarrow>
                          (case unescape password0 encodeUserPassword of
                             Inl err \<Rightarrow> Inl err
                           | Inr pw \<Rightarrow>
                               Inr (Some \<lparr>username = u, password = pw, passwordSet = True\<rparr>,
                                    host))))))"

definition setPath :: "URL \<Rightarrow> string \<Rightarrow> error + URL" where
  "setPath u p =
    (case unescape p encodePath of
       Inl err \<Rightarrow> Inl err
     | Inr path \<Rightarrow>
         Inr (u\<lparr>Path := path, RawPath := (if p = escape path encodePath then [] else p)\<rparr>))"

definition setFragment :: "URL \<Rightarrow> string \<Rightarrow> error + URL" where
  "setFragment u f =
    (case unescape f encodeFragment of
       Inl err \<Rightarrow> Inl err
     | Inr frag \<Rightarrow>
         Inr (u\<lparr>Fragment := frag,
                RawFragment := (if f = escape frag encodeFragment then [] else f)\<rparr>))"

text \<open>
  \<^verbatim>\<open>parse(rawURL, viaRequest)\<close>.  \<open>parse_rest\<close> is its second half, from the test of the
  leading slash on: \<open>url\<close> has the scheme and the query, \<open>rest\<close> is what is left of the text.
\<close>

definition parse_rest :: "URL \<Rightarrow> string \<Rightarrow> bool \<Rightarrow> error + URL" where
  "parse_rest url rest viaRequest =
    (if \<not> HasPrefix rest ''/'' \<and> Scheme url \<noteq> [] then Inr (url\<lparr>Opaque := rest\<rparr>)
     else if \<not> HasPrefix rest ''/'' \<and> viaRequest then Inl (ErrorsNew ''invalid URI for request'')
     else if \<not> HasPrefix rest ''/'' \<and> CHR '':'' \<in> set (fst (Cut rest CHR ''/'')) then
       Inl (ErrorsNew ''first path segment in URL cannot contain colon'')
     else if (Scheme url \<noteq> [] \<or> \<not> viaRequest \<and> \<not> HasPrefix rest ''///'')
             \<and> HasPrefix rest ''//'' then
       (let authority0 = drop 2 rest;
            authority = (case Index authority0 ''/'' of
                           Some i \<Rightarrow> take i authority0 | None \<Rightarrow> authority0);
            rest' = (case Index authority0 ''/'' of
                       Some i \<Rightarrow> drop i authority0 | None \<Rightarrow> [])
        in case parseAuthority authority of
             Inl err \<Rightarrow> Inl err
           | Inr (user, host) \<Rightarrow> setPath (url\<lparr>User := user, Host := host\<rparr>) rest')
     else if Scheme url \<noteq> [] \<and> HasPrefix rest ''/'' then setPath (url\<lparr>OmitHost := True\<rparr>) rest
     else setPath url rest)"

definition parse :: "string \<Rightarrow> bool \<Rightarrow> error + URL" where
  "parse rawURL viaRequest =
    (if stringContainsCTLByte rawURL then
       Inl (ErrorsNew ''net/url: invalid control character in URL'')
     else if rawURL = [] \<and> viaRequest then Inl (ErrorsNew ''empty url'')
     else if rawURL = ''*'' then Inr (new_URL\<lparr>Path := ''*''\<rparr>)
     else
       (case getScheme rawURL of
          Inl err \<Rightarrow> Inl err
        | Inr (scheme, rest) \<Rightarrow>
            if HasSuffix rest ''?'' \<and> count_list rest CHR ''?'' = 1 then
              parse_rest (new_URL\<lparr>Scheme := ToLower scheme, ForceQuery := True\<rparr>)
                (butlast rest) viaRequest
            else
              (case Cut rest CHR ''?'' of
                 (rest', query, _) \<Rightarrow>
                   parse_rest (new_URL\<lparr>Scheme := ToLower scheme, RawQuery := query\<rparr>)
                     rest' viaRequest)))"

definition Parse :: "string \<Rightarrow> error + URL" where
  "Parse rawURL =
    (case Cut rawURL CHR ''#'' of
       (u, frag, _) \<Rightarrow>
         (case parse u False of
            Inl err \<Rightarrow> Inl (UrlError ''parse'' u err)
          | Inr url \<Rightarrow>
              if frag = [] then Inr url
              else
                (case setFragment url frag of
                   Inl err \<Rightarrow> Inl (UrlError ''parse'' rawURL err)
                 | Inr url' \<Rightarrow> Inr url')))"

definition ParseRequestURI :: "string \<Rightarrow> error + URL" where
  "ParseRequestURI rawURL =
    (case parse rawURL True of
       Inl err \<Rightarrow> Inl (UrlError ''parse'' rawURL err)
     | Inr url \<Rightarrow> Inr url)"

subsection \<open>\<^verbatim>\<open>net/http\<close>: clients, requests, responses\<close>

text \<open>
  \<^verbatim>\<open>http.Client\<close>: the package sets the field \<^verbatim>\<open>Timeout\<close> only, a \<^verbatim>\<open>time.Duration\<close>
  (nanoseconds).
\<close>

record Client =
  Timeout :: int

definition Second :: int where
  "Second = 1000000000"

text \<open>
  The body of an outgoing request is the JSON text that \<^verbatim>\<open>json.Marshal\<close> makes of a
  \<^verbatim>\<open>Request\<close>.  The names of the JSON members are set by the field tags of the type
  declaration, which the source file does not hold, so the body is kept as the value that is
  encoded: one member for each field of \<^verbatim>\<open>Request\<close>, the pointer \<^verbatim>\<open>Fallbacks\<close> followed
  into the store, as the encoder follows it (\<open>None\<close> for \<^verbatim>\<open>nil\<close>).  The type parameter
  \<open>'b\<close> of a request is the type of its body.
\<close>

record 'b HttpRequest =
  Method :: string
  URL :: URL
  Header :: "string \<rightharpoonup> string list"
  Body :: 'b
  ReqHost :: string

record HttpResponse =
  StatusCode :: int
  RespBody :: string

text \<open>\<^verbatim>\<open>validMethod\<close>: a method is a non-empty token of RFC 7230.\<close>

definition isTokenByte :: "char \<Rightarrow> bool" where
  "isTokenByte c \<longleftrightarrow>
     is_lower c \<or> is_upper c \<or> is_digit c \<or> c \<in> set ''!#$%&'*+-.^_`|~''"

definition validMethod :: "string \<Rightarrow> bool" where
  "validMethod method \<longleftrightarrow> method \<noteq> [] \<and> list_all isTokenByte method"

definition removeEmptyPort :: "string \<Rightarrow> string" where
  "removeEmptyPort host =
    (if (case LastIndex host CHR '':'' of
           None \<Rightarrow> False
         | Some i \<Rightarrow> (case LastIndex host CHR '']'' of None \<Rightarrow> True | Some j \<Rightarrow> j < i))
        \<and> HasSuffix host '':''
     then butlast host else host)"

text \<open>
  \<^verbatim>\<open>http.NewRequest(method, url, body)\<close>: the method is checked, the address is parsed
  with \<^verbatim>\<open>url.Parse\<close>, and the request starts with an empty header.
\<close>

definition http_NewRequest :: "string \<Rightarrow> string \<Rightarrow> 'b \<Rightarrow> error + 'b HttpRequest" where
  "http_NewRequest method0 url body =
    (let method = (if method0 = [] then ''GET'' else method0) in
     if \<not> validMethod method then Inl (InvalidMethodError method)
     else
       (case Parse url of
          Inl err \<Rightarrow> Inl err
        | Inr u \<Rightarrow>
            Inr \<lparr>Method = method, URL = u\<lparr>Host := removeEmptyPort (Host u)\<rparr>,
                 Header = Map.empty, Body = body, ReqHost = removeEmptyPort (Host u)\<rparr>))"

text \<open>
  \<^verbatim>\<open>Header.Set(key, value)\<close> replaces the values of the key by the one value.  It stores
  under the canonical form of the key; the keys that the package sets (\<^verbatim>\<open>User-Agent\<close>,
  \<^verbatim>\<open>Content-Type\<close>, \<^verbatim>\<open>X-Forwarded-For\<close>) are constants in canonical form already.
\<close>

definition Header_Set :: "'b HttpRequest \<Rightarrow> string \<Rightarrow> string \<Rightarrow> 'b HttpRequest" where
  "Header_Set r key v = r\<lparr>Header := (Header r)(key \<mapsto> [v])\<rparr>"

section \<open>The data of the package\<close>

text \<open>
  Modelled from the spec: the declarations of the types \<^verbatim>\<open>Request\<close>, \<^verbatim>\<open>Fallbacks\<close>,
  \<^verbatim>\<open>Response\<close> and \<^verbatim>\<open>yandex\<close> are not in the source file.  The fields that
  \<^verbatim>\<open>locator.go\<close> reads or writes (\<^verbatim>\<open>ConsiderIp\<close>, \<^verbatim>\<open>Fallbacks\<close> with \<^verbatim>\<open>LAC\<close> and \<^verbatim>\<open>IP\<close>,
  \<^verbatim>\<open>RadioType\<close>, \<^verbatim>\<open>IPAddress\<close>; \<^verbatim>\<open>apiKey\<close> and \<^verbatim>\<open>client\<close> of \<^verbatim>\<open>yandex\<close>) have the names and
  types the code gives them; the others follow section 3 of the specification: the observed
  cell towers (country code, network code, location area code, cell ID, signal strength),
  the observed Wi-Fi access points (MAC identifier, signal strength), and for the answer a
  latitude and longitude with an accuracy radius.

  \<^verbatim>\<open>Request.Fallbacks\<close> is a pointer (line 73 assigns \<^verbatim>\<open>&Fallbacks{...}\<close>): an address in a
  store of \<^verbatim>\<open>Fallbacks\<close> values, or \<open>None\<close> for \<^verbatim>\<open>nil\<close>.  The store is a list, an address is an
  index into it, and an allocation appends.
\<close>

record Fallbacks =
  LAC :: bool
  IP :: bool

type_synonym heap = "Fallbacks list"

record CellTower =
  MobileCountryCode :: int
  MobileNetworkCode :: int
  LocationAreaCode :: int
  CellId :: int
  SignalStrength :: int

record WifiAccessPoint =
  MacAddress :: string
  WifiSignalStrength :: int

record Request =
  RadioType :: string
  CellTowers :: "CellTower list"
  WifiAccessPoints :: "WifiAccessPoint list"
  IPAddress :: string
  ConsiderIp :: bool
  Fallbacks :: "nat option"

record Location =
  Lat :: real
  Lng :: real

record Response =
  Location :: Location
  Accuracy :: real

text \<open>The three variables of lines 12 to 16, and their initial values.\<close>

record globals =
  RequestTimeout :: int
  IgnoreIPMethod :: bool
  UserAgent :: string

definition initial_globals :: globals where
  "initial_globals =
     \<lparr>RequestTimeout = Second * 30, IgnoreIPMethod = False, UserAgent = ''GeoTrack/1.0''\<rparr>"

definition Mozilla :: string where
  "Mozilla = ''https://location.services.mozilla.com/v1/geolocate''"

definition Google :: string where
  "Google = ''https://www.googleapis.com/geolocation/v1/geolocate''"

definition Yandex :: string where
  "Yandex = ''http://api.lbs.yandex.net/geolocation''"

record base =
  serviceUrl :: string
  client :: Client

record yandex =
  apiKey :: string
  yandex_client :: Client

text \<open>A value of the interface \<^verbatim>\<open>Locator\<close> is a \<^verbatim>\<open>*base\<close> or a \<^verbatim>\<open>*yandex\<close>.\<close>

datatype Locator =
    BaseLocator base
  | YandexLocator yandex

section \<open>\<^verbatim>\<open>New\<close>\<close>

text \<open>
  \<^verbatim>\<open>New\<close> returns a pair \<^verbatim>\<open>(locator, err)\<close>; \<open>None\<close> is \<^verbatim>\<open>nil\<close>.  It reads the global
  \<^verbatim>\<open>RequestTimeout\<close>, so it takes the globals as they are when it is called.
\<close>

definition New :: "globals \<Rightarrow> string \<Rightarrow> string \<Rightarrow> Locator option \<times> error option" where
  "New g serviceUrl0 apiKey0 =
    (if serviceUrl0 = Yandex then
       (Some (YandexLocator
                \<lparr>apiKey = apiKey0, yandex_client = \<lparr>Timeout = RequestTimeout g\<rparr>\<rparr>), None)
     else
       (let serviceUrl1 =
              (if apiKey0 \<noteq> [] then serviceUrl0 @ ''?key='' @ QueryEscape apiKey0
               else serviceUrl0)
        in case ParseRequestURI serviceUrl1 of
             Inl err \<Rightarrow> (None, Some err)
           | Inr _ \<Rightarrow>
               (Some (BaseLocator
                        \<lparr>serviceUrl = serviceUrl1, client = \<lparr>Timeout = RequestTimeout g\<rparr>\<rparr>),
                None)))"

subsection \<open>The specification's absolute URI\<close>



section \<open>\<^verbatim>\<open>Get\<close> of the standard client\<close>

record RequestJSON =
  jRadioType :: string
  jCellTowers :: "CellTower list"
  jWifiAccessPoints :: "WifiAccessPoint list"
  jIPAddress :: string
  jConsiderIp :: bool
  jFallbacks :: "Fallbacks option"

text \<open>
  \<^verbatim>\<open>json.Marshal(req)\<close>.  It fails on values that JSON cannot hold (a channel, a function,
  a number that is not finite); a \<^verbatim>\<open>Request\<close> has none, so the result is never an error.
  An address outside the store does not occur in Go; it is encoded like \<^verbatim>\<open>nil\<close>.
\<close>

definition json_Marshal :: "heap \<Rightarrow> Request \<Rightarrow> error + RequestJSON" where
  "json_Marshal h req =
    Inr \<lparr>jRadioType = RadioType req,
         jCellTowers = CellTowers req,
         jWifiAccessPoints = WifiAccessPoints req,
         jIPAddress = IPAddress req,
         jConsiderIp = ConsiderIp req,
         jFallbacks =
           (case Fallbacks req of
              None \<Rightarrow> None
            | Some p \<Rightarrow> if p < length h then Some (h ! p) else None)\<rparr>"

text \<open>
  What lies outside the program: \<open>Do w c r\<close> is what \<^verbatim>\<open>c.Do(r)\<close> returns for the client
  \<open>c\<close> and the request \<open>r\<close>, the text of a transport failure (name resolution, connection,
  the client's timeout) or the response of the server; \<open>Decode w b\<close> is what the JSON decoder
  makes of the response body \<open>b\<close>, the text of a decoding failure or a \<^verbatim>\<open>Response\<close>.
\<close>

record world =
  Do :: "Client \<Rightarrow> RequestJSON HttpRequest \<Rightarrow> string + HttpResponse"
  Decode :: "string \<Rightarrow> string + Response"

text \<open>
  What a call of \<^verbatim>\<open>Get\<close> does besides returning: the store after the call; the client
  and the request given to \<^verbatim>\<open>l.client.Do\<close>, if the call came that far; the response received,
  if there was one; and whether \<^verbatim>\<open>resp.Body.Close()\<close> was called.
\<close>

record effects =
  heap_after :: heap
  issued :: "(Client \<times> RequestJSON HttpRequest) option"
  received :: "HttpResponse option"
  body_closed :: bool

text \<open>
  \<^verbatim>\<open>Get\<close> (lines 70 to 119).  The parameter \<^verbatim>\<open>req\<close> is passed by value: \<open>req1\<close> to \<open>req4\<close>
  are the states of the local copy.  The globals \<open>g\<close> are those at the time of the call.
  The result is the pair \<^verbatim>\<open>(*Response, error)\<close>, \<open>None\<close> for \<^verbatim>\<open>nil\<close>.
\<close>

definition Get :: "world \<Rightarrow> globals \<Rightarrow> base \<Rightarrow> heap \<Rightarrow> Request
    \<Rightarrow> (Response option \<times> error option) \<times> effects" where
  "Get w g l h req =
    (let req1 = req\<lparr>ConsiderIp := \<not> IgnoreIPMethod g\<rparr>;
         h1 = (if IgnoreIPMethod g then h @ [\<lparr>LAC = False, IP = False\<rparr>] else h);
         req2 = (if IgnoreIPMethod g then req1\<lparr>Fallbacks := Some (length h)\<rparr> else req1);
         req3 = (if RadioType req2 = [] then req2\<lparr>RadioType := ''gsm''\<rparr> else req2);
         ipAddress = IPAddress req3;
         req4 = req3\<lparr>IPAddress := []\<rparr>
     in case json_Marshal h1 req4 of
          Inl err \<Rightarrow>
            ((None, Some err),
             \<lparr>heap_after = h1, issued = None, received = None, body_closed = False\<rparr>)
        | Inr data \<Rightarrow>
            (case http_NewRequest ''POST'' (serviceUrl l) data of
               Inl err \<Rightarrow>
                 ((None, Some err),
                  \<lparr>heap_after = h1, issued = None, received = None, body_closed = False\<rparr>)
             | Inr httpReq \<Rightarrow>
                 (let httpReq1 = Header_Set httpReq ''User-Agent'' (UserAgent g);
                      httpReq2 = Header_Set httpReq1 ''Content-Type'' ''application/json'';
                      httpReq3 = (if ipAddress \<noteq> []
                                  then Header_Set httpReq2 ''X-Forwarded-For'' ipAddress
                                  else httpReq2)
                  in case Do w (client l) httpReq3 of
                       Inl err \<Rightarrow>
                         ((None, Some (TransportError err)),
                          \<lparr>heap_after = h1, issued = Some (client l, httpReq3),
                           received = None, body_closed = False\<rparr>)
                     | Inr resp \<Rightarrow>
                         if StatusCode resp = 200 then
                           (case Decode w (RespBody resp) of
                              Inl err \<Rightarrow>
                                ((None, Some (DecodeError err)),
                                 \<lparr>heap_after = h1, issued = Some (client l, httpReq3),
                                  received = Some resp, body_closed = True\<rparr>)
                            | Inr response \<Rightarrow>
                                ((Some response, None),
                                 \<lparr>heap_after = h1, issued = Some (client l, httpReq3),
                                  received = Some resp, body_closed = True\<rparr>))
                         else if StatusCode resp = 400 then
                           ((None, Some ErrBadRequest),
                            \<lparr>heap_after = h1, issued = Some (client l, httpReq3),
                             received = Some resp, body_closed = False\<rparr>)
                         else if StatusCode resp = 403 then
                           ((None, Some ErrForbidden),
                            \<lparr>heap_after = h1, issued = Some (client l, httpReq3),
                             received = Some resp, body_closed = False\<rparr>)
                         else if StatusCode resp = 404 then
                           ((None, Some ErrNotFound),
                            \<lparr>heap_after = h1, issued = Some (client l, httpReq3),
                             received = Some resp, body_closed = False\<rparr>)
                         else
                           ((None, Some (ErrorsNew (StatusText (StatusCode resp)))),
                            \<lparr>heap_after = h1, issued = Some (client l, httpReq3),
                             received = Some resp, body_closed = False\<rparr>))))"


subsection \<open>The parts of \<^verbatim>\<open>Get\<close>\<close>

text \<open>
  The parts of \<^verbatim>\<open>Get\<close>, each under a name, for the facts below: the value encoded into
  the body once the local copy of the request has been changed (lines 71 to 83), the headers
  set on the new request (lines 91 to 95), the store after line 73, and the result for a
  response received (lines 101 to 118).  \<open>Get_parts\<close> below proves that \<^verbatim>\<open>Get\<close> is made of
  them.
\<close>

definition wire_body :: "globals \<Rightarrow> heap \<Rightarrow> Request \<Rightarrow> RequestJSON" where
  "wire_body g h req =
     \<lparr>jRadioType = (if RadioType req = [] then ''gsm'' else RadioType req),
      jCellTowers = CellTowers req,
      jWifiAccessPoints = WifiAccessPoints req,
      jIPAddress = [],
      jConsiderIp = (\<not> IgnoreIPMethod g),
      jFallbacks =
        (if IgnoreIPMethod g then Some \<lparr>LAC = False, IP = False\<rparr>
         else case Fallbacks req of
                None \<Rightarrow> None
              | Some p \<Rightarrow> if p < length h then Some (h ! p) else None)\<rparr>"

definition wire_headers ::
    "globals \<Rightarrow> Request \<Rightarrow> RequestJSON HttpRequest \<Rightarrow> RequestJSON HttpRequest" where
  "wire_headers g req httpReq =
     (if IPAddress req \<noteq> [] then
        Header_Set
          (Header_Set (Header_Set httpReq ''User-Agent'' (UserAgent g))
             ''Content-Type'' ''application/json'')
          ''X-Forwarded-For'' (IPAddress req)
      else Header_Set (Header_Set httpReq ''User-Agent'' (UserAgent g))
             ''Content-Type'' ''application/json'')"

definition store_after :: "globals \<Rightarrow> heap \<Rightarrow> heap" where
  "store_after g h = (if IgnoreIPMethod g then h @ [\<lparr>LAC = False, IP = False\<rparr>] else h)"

definition status_result :: "world \<Rightarrow> HttpResponse \<Rightarrow> Response option \<times> error option" where
  "status_result w resp =
     (if StatusCode resp = 200 then
        (case Decode w (RespBody resp) of
           Inl err \<Rightarrow> (None, Some (DecodeError err))
         | Inr response \<Rightarrow> (Some response, None))
      else if StatusCode resp = 400 then (None, Some ErrBadRequest)
      else if StatusCode resp = 403 then (None, Some ErrForbidden)
      else if StatusCode resp = 404 then (None, Some ErrNotFound)
      else (None, Some (ErrorsNew (StatusText (StatusCode resp)))))"

subsection \<open>Sample inputs\<close>

text \<open>
  A server that answers every request with the given status and the body \<^verbatim>\<open>{}\<close>, which
  decodes to a \<^verbatim>\<open>Response\<close> of zeros; a store with one \<^verbatim>\<open>Fallbacks\<close> value; a request
  whose \<^verbatim>\<open>Fallbacks\<close> points to it; the client that \<^verbatim>\<open>New(Mozilla, "abc123")\<close> returns
  under the initial globals; and the request that \<^verbatim>\<open>http.NewRequest\<close> makes for that client,
  given its header and body.
\<close>

definition example_server :: "int \<Rightarrow> world" where
  "example_server code =
     \<lparr>Do = (\<lambda>c r. Inr \<lparr>StatusCode = code, RespBody = ''{}''\<rparr>),
      Decode = (\<lambda>b. if b = ''{}'' then Inr \<lparr>Location = \<lparr>Lat = 0, Lng = 0\<rparr>, Accuracy = 0\<rparr>
                     else Inl ''unexpected end of JSON input'')\<rparr>"

definition example_heap :: heap where
  "example_heap = [\<lparr>LAC = True, IP = True\<rparr>]"

definition example_request :: Request where
  "example_request =
     \<lparr>RadioType = [],
      CellTowers = [\<lparr>MobileCountryCode = 250, MobileNetworkCode = 1, LocationAreaCode = 7,
                     CellId = 42, SignalStrength = - 60\<rparr>],
      WifiAccessPoints = [\<lparr>MacAddress = ''01:23:45:67:89:ab'', WifiSignalStrength = - 50\<rparr>],
      IPAddress = ''10.0.0.1'', ConsiderIp = False, Fallbacks = Some 0\<rparr>"

definition example_base :: base where
  "example_base = \<lparr>serviceUrl = Mozilla @ ''?key=abc123'', client = \<lparr>Timeout = Second * 30\<rparr>\<rparr>"

definition example_wire ::
    "(string \<rightharpoonup> string list) \<Rightarrow> RequestJSON \<Rightarrow> RequestJSON HttpRequest" where
  "example_wire hdr b =
     \<lparr>Method = ''POST'',
      URL = \<lparr>Scheme = ''https'', Opaque = [], User = None,
             Host = ''location.services.mozilla.com'', Path = ''/v1/geolocate'', RawPath = [],
             OmitHost = False, ForceQuery = False, RawQuery = ''key=abc123'', Fragment = [],
             RawFragment = []\<rparr>,
      Header = hdr, Body = b, ReqHost = ''location.services.mozilla.com''\<rparr>"

text \<open>Globals as they may be later in the life of the process, every one changed.\<close>

definition later_globals :: globals where
  "later_globals =
     \<lparr>RequestTimeout = Second * 5, IgnoreIPMethod = True, UserAgent = ''Other/2.0''\<rparr>"

section \<open>Facts about \<^verbatim>\<open>Get\<close>\<close>

lemma Get_parts:
  "Get w g l h req =
    (case http_NewRequest ''POST'' (serviceUrl l) (wire_body g h req) of
       Inl err \<Rightarrow>
         ((None, Some err),
          \<lparr>heap_after = store_after g h, issued = None, received = None,
           body_closed = False\<rparr>)
     | Inr httpReq \<Rightarrow>
         (case Do w (client l) (wire_headers g req httpReq) of
            Inl err \<Rightarrow>
              ((None, Some (TransportError err)),
               \<lparr>heap_after = store_after g h,
                issued = Some (client l, wire_headers g req httpReq),
                received = None, body_closed = False\<rparr>)
          | Inr resp \<Rightarrow>
              (status_result w resp,
               \<lparr>heap_after = store_after g h,
                issued = Some (client l, wire_headers g req httpReq),
                received = Some resp,
                body_closed = (StatusCode resp = 200)\<rparr>)))"
proof (cases "IgnoreIPMethod g"; cases "RadioType req = []"; cases "IPAddress req = []")
qed (simp_all add: Get_def Let_def json_Marshal_def wire_body_def wire_headers_def
       store_after_def status_result_def split: sum.split)


lemma NewRequest_Body:
  "http_NewRequest m u b = Inr r \<Longrightarrow> Body r = b \<and> Header r = Map.empty"
  unfolding http_NewRequest_def Let_def by (auto split: sum.splits if_splits)

lemma wire_headers_Body: "Body (wire_headers g req x) = Body x"
  by (simp add: wire_headers_def Header_Set_def)

lemma wire_headers_URL: "URL (wire_headers g req x) = URL x"
  by (simp add: wire_headers_def Header_Set_def)

lemma wire_headers_Header:
  "Header x = Map.empty \<Longrightarrow>
   Header (wire_headers g req x) =
     (if IPAddress req \<noteq> [] then
        [''User-Agent'' \<mapsto> [UserAgent g], ''Content-Type'' \<mapsto> [''application/json''],
         ''X-Forwarded-For'' \<mapsto> [IPAddress req]]
      else [''User-Agent'' \<mapsto> [UserAgent g], ''Content-Type'' \<mapsto> [''application/json'']])"
  by (simp add: wire_headers_def Header_Set_def)

lemma Get_issued_D:
  assumes "issued (snd (Get w g l h req)) = Some (c, r)"
  shows "c = client l \<and>
         (\<exists>httpReq. http_NewRequest ''POST'' (serviceUrl l) (wire_body g h req) = Inr httpReq
                     \<and> r = wire_headers g req httpReq)"
  using assms by (auto simp: Get_parts split: sum.splits)

lemma Get_issued_Body:
  assumes "issued (snd (Get w g l h req)) = Some (c, r)"
  shows "Body r = wire_body g h req"
  using Get_issued_D [OF assms] by (auto simp: wire_headers_Body dest: NewRequest_Body)

lemma Get_issued_Header:
  assumes "issued (snd (Get w g l h req)) = Some (c, r)"
  shows "Header r =
     (if IPAddress req \<noteq> [] then
        [''User-Agent'' \<mapsto> [UserAgent g], ''Content-Type'' \<mapsto> [''application/json''],
         ''X-Forwarded-For'' \<mapsto> [IPAddress req]]
      else [''User-Agent'' \<mapsto> [UserAgent g], ''Content-Type'' \<mapsto> [''application/json'']])"
proof -
  from Get_issued_D [OF assms] obtain x
    where x: "http_NewRequest ''POST'' (serviceUrl l) (wire_body g h req) = Inr x"
      and r: "r = wire_headers g req x"
    by blast
  from NewRequest_Body [OF x] have "Header x = Map.empty" by simp
  then show ?thesis unfolding r by (rule wire_headers_Header)
qed

lemma Get_result_D:
  assumes "issued (snd (Get w g l h req)) = Some (c, r)" and "Do w c r = Inr resp"
  shows "fst (Get w g l h req) = status_result w resp
         \<and> received (snd (Get w g l h req)) = Some resp
         \<and> body_closed (snd (Get w g l h req)) = (StatusCode resp = 200)"
  using assms by (auto simp: Get_parts split: sum.splits)

lemma Get_heap_after: "heap_after (snd (Get w g l h req)) = store_after g h"
  by (simp add: Get_parts split: sum.split)

lemma wire_body_IPAddress: "wire_body g h (req\<lparr>IPAddress := ip\<rparr>) = wire_body g h req"
  by (simp add: wire_body_def)

lemma Get_issued_Body_eq:
  "map_option (\<lambda>cr. Body (snd cr)) (issued (snd (Get w g l h req))) =
     (case http_NewRequest ''POST'' (serviceUrl l) (wire_body g h req) of
        Inl err \<Rightarrow> None
      | Inr httpReq \<Rightarrow> Some (wire_body g h req))"
  by (auto simp: Get_parts wire_headers_Body split: sum.splits dest: NewRequest_Body)

lemma Parse_example:
  "Parse ''https://location.services.mozilla.com/v1/geolocate?key=abc123'' =
     Inr \<lparr>Scheme = ''https'', Opaque = [], User = None,
          Host = ''location.services.mozilla.com'', Path = ''/v1/geolocate'', RawPath = [],
          OmitHost = False, ForceQuery = False, RawQuery = ''key=abc123'', Fragment = [],
          RawFragment = []\<rparr>"
  by code_simp

lemma validMethod_POST: "validMethod ''POST''"
  by code_simp

lemma removeEmptyPort_example:
  "removeEmptyPort ''location.services.mozilla.com'' = ''location.services.mozilla.com''"
  by code_simp

lemma NewRequest_example:
  "http_NewRequest ''POST'' (serviceUrl example_base) b = Inr (example_wire Map.empty b)"
  by (simp add: http_NewRequest_def example_base_def Mozilla_def Parse_example validMethod_POST
        removeEmptyPort_example example_wire_def)


lemma Get_example_issued:
  "issued (snd (Get (example_server code) g example_base h req)) =
     Some (\<lparr>Timeout = Second * 30\<rparr>,
           wire_headers g req (example_wire Map.empty (wire_body g h req)))"
  by (simp add: Get_parts NewRequest_example example_server_def split: sum.split)
     (simp add: example_base_def)

lemma example_Do:
  "Do (example_server code) c r = Inr \<lparr>StatusCode = code, RespBody = ''{}''\<rparr>"
  by (simp add: example_server_def)

text \<open>
  Claim C1.  Whenever \<^verbatim>\<open>Get\<close> gives a request to the HTTP client, the address of the
  caller's request is not in its body and travels in the header instead: the \<^verbatim>\<open>IPAddress\<close>
  member of the encoded value is empty; the body is the same whatever the \<^verbatim>\<open>IPAddress\<close> of
  the caller's request is (here: the same after the address has been replaced by any
  \<open>ip\<close>), so nothing of the address reaches it; and the header \<^verbatim>\<open>X-Forwarded-For\<close> holds
  exactly the address when it is not empty, and is not set when it is empty.
\<close>

theorem Get_IPAddress_out_of_band:
  assumes "issued (snd (Get w g l h req)) = Some (c, r)"
  shows "jIPAddress (Body r) = []
       \<and> map_option (\<lambda>cr. Body (snd cr)) (issued (snd (Get w g l h (req\<lparr>IPAddress := ip\<rparr>))))
           = Some (Body r)
       \<and> Header r ''X-Forwarded-For'' =
           (if IPAddress req \<noteq> [] then Some [IPAddress req] else None)"
proof -
  have b: "Body r = wire_body g h req" by (rule Get_issued_Body [OF assms])
  from Get_issued_D [OF assms] obtain x
    where x: "http_NewRequest ''POST'' (serviceUrl l) (wire_body g h req) = Inr x"
    by blast
  have "jIPAddress (Body r) = []" unfolding b by (simp add: wire_body_def)
  moreover have "map_option (\<lambda>cr. Body (snd cr))
        (issued (snd (Get w g l h (req\<lparr>IPAddress := ip\<rparr>)))) = Some (Body r)"
    unfolding b by (simp add: Get_issued_Body_eq wire_body_IPAddress x)
  moreover have "Header r ''X-Forwarded-For'' =
           (if IPAddress req \<noteq> [] then Some [IPAddress req] else None)"
    by (simp add: Get_issued_Header [OF assms])
  ultimately show ?thesis by blast
qed

theorem Get_IPAddress_out_of_band_witness:
  "issued (snd (Get (example_server 200) initial_globals example_base example_heap
                  example_request)) =
     Some (\<lparr>Timeout = Second * 30\<rparr>,
           wire_headers initial_globals example_request
             (example_wire Map.empty (wire_body initial_globals example_heap example_request)))
   \<and> jIPAddress (Body (wire_headers initial_globals example_request
             (example_wire Map.empty (wire_body initial_globals example_heap example_request))))
       = []
   \<and> map_option (\<lambda>cr. Body (snd cr))
        (issued (snd (Get (example_server 200) initial_globals example_base example_heap
                        (example_request\<lparr>IPAddress := ''192.168.1.7''\<rparr>))))
       = Some (\<lparr>jRadioType = ''gsm'',
                 jCellTowers = CellTowers example_request,
                 jWifiAccessPoints = WifiAccessPoints example_request,
                 jIPAddress = [], jConsiderIp = True,
                 jFallbacks = Some \<lparr>LAC = True, IP = True\<rparr>\<rparr>)
   \<and> Header (wire_headers initial_globals example_request
             (example_wire Map.empty (wire_body initial_globals example_heap example_request)))
        ''X-Forwarded-For'' = Some [''10.0.0.1'']"
proof -
  have i: "issued (snd (Get (example_server 200) initial_globals example_base example_heap
                  example_request)) =
     Some (\<lparr>Timeout = Second * 30\<rparr>,
           wire_headers initial_globals example_request
             (example_wire Map.empty (wire_body initial_globals example_heap example_request)))"
    by (rule Get_example_issued)
  have b: "Body (wire_headers initial_globals example_request
             (example_wire Map.empty (wire_body initial_globals example_heap example_request)))
         = \<lparr>jRadioType = ''gsm'',
                 jCellTowers = CellTowers example_request,
                 jWifiAccessPoints = WifiAccessPoints example_request,
                 jIPAddress = [], jConsiderIp = True,
                 jFallbacks = Some \<lparr>LAC = True, IP = True\<rparr>\<rparr>"
    by (simp add: wire_headers_Body example_wire_def wire_body_def example_request_def
          initial_globals_def example_heap_def)
  have ip: "IPAddress example_request = ''10.0.0.1''" by (simp add: example_request_def)
  from Get_IPAddress_out_of_band [OF i, of "''192.168.1.7''"] i b ip
  show ?thesis by simp
qed

text \<open>
  Claim C4.  Whenever \<^verbatim>\<open>Get\<close> gives a request to the HTTP client, the member
  \<^verbatim>\<open>ConsiderIp\<close> of its body is the negation of the global \<^verbatim>\<open>IgnoreIPMethod\<close>, and when
  that global is set, the \<^verbatim>\<open>Fallbacks\<close> of the body has \<^verbatim>\<open>LAC\<close> and \<^verbatim>\<open>IP\<close> both false,
  for every request and every store, so whatever fallback values the caller supplied.
\<close>

theorem Get_ConsiderIp_and_Fallbacks:
  assumes "issued (snd (Get w g l h req)) = Some (c, r)"
  shows "jConsiderIp (Body r) = (\<not> IgnoreIPMethod g)
       \<and> (IgnoreIPMethod g \<longrightarrow> jFallbacks (Body r) = Some \<lparr>LAC = False, IP = False\<rparr>)"
  by (simp add: Get_issued_Body [OF assms] wire_body_def)

theorem Get_ConsiderIp_and_Fallbacks_witness:
  "issued (snd (Get (example_server 200) (initial_globals\<lparr>IgnoreIPMethod := True\<rparr>)
                  example_base example_heap example_request)) =
     Some (\<lparr>Timeout = Second * 30\<rparr>,
           wire_headers (initial_globals\<lparr>IgnoreIPMethod := True\<rparr>) example_request
             (example_wire Map.empty
                (wire_body (initial_globals\<lparr>IgnoreIPMethod := True\<rparr>) example_heap
                   example_request)))
   \<and> IgnoreIPMethod (initial_globals\<lparr>IgnoreIPMethod := True\<rparr>)
   \<and> jConsiderIp (Body (wire_headers (initial_globals\<lparr>IgnoreIPMethod := True\<rparr>) example_request
             (example_wire Map.empty
                (wire_body (initial_globals\<lparr>IgnoreIPMethod := True\<rparr>) example_heap
                   example_request)))) = False
   \<and> jFallbacks (Body (wire_headers (initial_globals\<lparr>IgnoreIPMethod := True\<rparr>) example_request
             (example_wire Map.empty
                (wire_body (initial_globals\<lparr>IgnoreIPMethod := True\<rparr>) example_heap
                   example_request)))) = Some \<lparr>LAC = False, IP = False\<rparr>
   \<and> Fallbacks example_request = Some 0
   \<and> example_heap ! 0 = \<lparr>LAC = True, IP = True\<rparr>"
proof -
  have i: "issued (snd (Get (example_server 200) (initial_globals\<lparr>IgnoreIPMethod := True\<rparr>)
                  example_base example_heap example_request)) =
     Some (\<lparr>Timeout = Second * 30\<rparr>,
           wire_headers (initial_globals\<lparr>IgnoreIPMethod := True\<rparr>) example_request
             (example_wire Map.empty
                (wire_body (initial_globals\<lparr>IgnoreIPMethod := True\<rparr>) example_heap
                   example_request)))"
    by (rule Get_example_issued)
  have e: "Fallbacks example_request = Some 0"
    "example_heap ! 0 = \<lparr>LAC = True, IP = True\<rparr>"
    by (simp_all add: example_request_def example_heap_def)
  from Get_ConsiderIp_and_Fallbacks [OF i] i e show ?thesis by simp
qed

text \<open>
  Claim C9.  Whenever \<^verbatim>\<open>Get\<close> gives a request to the HTTP client, the member
  \<^verbatim>\<open>RadioType\<close> of its body is \<^verbatim>\<open>gsm\<close> when the caller's \<^verbatim>\<open>RadioType\<close> is the empty
  string, and the caller's \<^verbatim>\<open>RadioType\<close> unchanged otherwise.
\<close>

theorem Get_RadioType_default:
  assumes "issued (snd (Get w g l h req)) = Some (c, r)"
  shows "jRadioType (Body r) = (if RadioType req = [] then ''gsm'' else RadioType req)"
  by (simp add: Get_issued_Body [OF assms] wire_body_def)

theorem Get_RadioType_default_witness:
  "issued (snd (Get (example_server 200) initial_globals example_base example_heap
                  example_request)) =
     Some (\<lparr>Timeout = Second * 30\<rparr>,
           wire_headers initial_globals example_request
             (example_wire Map.empty (wire_body initial_globals example_heap example_request)))
   \<and> RadioType example_request = []
   \<and> jRadioType (Body (wire_headers initial_globals example_request
             (example_wire Map.empty (wire_body initial_globals example_heap example_request))))
       = ''gsm''
   \<and> issued (snd (Get (example_server 200) initial_globals example_base example_heap
                  (example_request\<lparr>RadioType := ''lte''\<rparr>))) =
     Some (\<lparr>Timeout = Second * 30\<rparr>,
           wire_headers initial_globals (example_request\<lparr>RadioType := ''lte''\<rparr>)
             (example_wire Map.empty
                (wire_body initial_globals example_heap (example_request\<lparr>RadioType := ''lte''\<rparr>))))
   \<and> jRadioType (Body (wire_headers initial_globals (example_request\<lparr>RadioType := ''lte''\<rparr>)
             (example_wire Map.empty
                (wire_body initial_globals example_heap (example_request\<lparr>RadioType := ''lte''\<rparr>)))))
       = ''lte''"
proof -
  have i: "issued (snd (Get (example_server 200) initial_globals example_base example_heap
                  example_request)) =
     Some (\<lparr>Timeout = Second * 30\<rparr>,
           wire_headers initial_globals example_request
             (example_wire Map.empty (wire_body initial_globals example_heap example_request)))"
    by (rule Get_example_issued)
  have j: "issued (snd (Get (example_server 200) initial_globals example_base example_heap
                  (example_request\<lparr>RadioType := ''lte''\<rparr>))) =
     Some (\<lparr>Timeout = Second * 30\<rparr>,
           wire_headers initial_globals (example_request\<lparr>RadioType := ''lte''\<rparr>)
             (example_wire Map.empty
                (wire_body initial_globals example_heap (example_request\<lparr>RadioType := ''lte''\<rparr>))))"
    by (rule Get_example_issued)
  have e: "RadioType example_request = []" by (simp add: example_request_def)
  from Get_RadioType_default [OF i] Get_RadioType_default [OF j] i j e
  show ?thesis by simp
qed

lemma StatusText_418: "StatusText 418 = ''I'm a teapot''"
  by (simp add: StatusText_def)

text \<open>
  Claim C5.  Whenever \<^verbatim>\<open>Get\<close> gives a request to the HTTP client and the client returns
  a response, the status of the response decides the result: 400 gives \<^verbatim>\<open>ErrBadRequest\<close>,
  403 gives \<^verbatim>\<open>ErrForbidden\<close>, 404 gives \<^verbatim>\<open>ErrNotFound\<close>, and every status other than
  200, 400, 403 and 404 gives a new error whose text is \<^verbatim>\<open>http.StatusText\<close> of the status
  (for 418, the text \<^verbatim>\<open>I'm a teapot\<close>).  The three package errors are three different
  values.
\<close>

theorem Get_status_to_error:
  assumes "issued (snd (Get w g l h req)) = Some (c, r)" and "Do w c r = Inr resp"
  shows "(StatusCode resp = 400 \<longrightarrow> fst (Get w g l h req) = (None, Some ErrBadRequest))
       \<and> (StatusCode resp = 403 \<longrightarrow> fst (Get w g l h req) = (None, Some ErrForbidden))
       \<and> (StatusCode resp = 404 \<longrightarrow> fst (Get w g l h req) = (None, Some ErrNotFound))
       \<and> (StatusCode resp \<notin> {200, 400, 403, 404} \<longrightarrow>
            fst (Get w g l h req) = (None, Some (ErrorsNew (StatusText (StatusCode resp))))
            \<and> Error (ErrorsNew (StatusText (StatusCode resp)))
                = Some (StatusText (StatusCode resp)))
       \<and> ErrBadRequest \<noteq> ErrForbidden \<and> ErrBadRequest \<noteq> ErrNotFound
       \<and> ErrForbidden \<noteq> ErrNotFound"
  using Get_result_D [OF assms] by (simp add: status_result_def)

theorem Get_status_to_error_witness:
  "issued (snd (Get (example_server 418) initial_globals example_base example_heap
                  example_request)) =
     Some (\<lparr>Timeout = Second * 30\<rparr>,
           wire_headers initial_globals example_request
             (example_wire Map.empty (wire_body initial_globals example_heap example_request)))
   \<and> Do (example_server 418) \<lparr>Timeout = Second * 30\<rparr>
        (wire_headers initial_globals example_request
             (example_wire Map.empty (wire_body initial_globals example_heap example_request)))
       = Inr \<lparr>StatusCode = 418, RespBody = ''{}''\<rparr>
   \<and> fst (Get (example_server 418) initial_globals example_base example_heap example_request)
       = (None, Some (ErrorsNew ''I'm a teapot''))
   \<and> Error (ErrorsNew ''I'm a teapot'') = Some ''I'm a teapot''"
proof -
  have i: "issued (snd (Get (example_server 418) initial_globals example_base example_heap
                  example_request)) =
     Some (\<lparr>Timeout = Second * 30\<rparr>,
           wire_headers initial_globals example_request
             (example_wire Map.empty (wire_body initial_globals example_heap example_request)))"
    by (rule Get_example_issued)
  have d: "Do (example_server 418) \<lparr>Timeout = Second * 30\<rparr>
        (wire_headers initial_globals example_request
             (example_wire Map.empty (wire_body initial_globals example_heap example_request)))
       = Inr \<lparr>StatusCode = 418, RespBody = ''{}''\<rparr>"
    by (rule example_Do)
  from Get_status_to_error [OF i d] i d show ?thesis by (simp add: StatusText_418)
qed

lemma Get_body_closed_iff:
  assumes "issued (snd (Get w g l h req)) = Some (c, r)" and "Do w c r = Inr resp"
  shows "body_closed (snd (Get w g l h req)) \<longleftrightarrow> StatusCode resp = 200"
  using Get_result_D [OF assms] by simp

text \<open>
  Claim C2 says that the body of every response received is closed before \<^verbatim>\<open>Get\<close>
  returns.  The code closes it only on the path of status 200 (line 114, after decoding,
  whether decoding failed or not): the four \<^verbatim>\<open>return\<close> statements of the \<^verbatim>\<open>switch\<close> (lines
  104 to 110) leave the function before that line.  \<open>Get_body_closed_iff\<close> is the general
  fact; the theorem runs \<^verbatim>\<open>Get\<close> against a server that answers 404: the response is
  received, the result is \<^verbatim>\<open>ErrNotFound\<close>, and the body was not closed.
\<close>

theorem Get_404_leaves_body_open:
  "received (snd (Get (example_server 404) initial_globals example_base example_heap
                    example_request)) = Some \<lparr>StatusCode = 404, RespBody = ''{}''\<rparr>
   \<and> fst (Get (example_server 404) initial_globals example_base example_heap example_request)
       = (None, Some ErrNotFound)
   \<and> body_closed (snd (Get (example_server 404) initial_globals example_base example_heap
                          example_request)) = False"
proof -
  have i: "issued (snd (Get (example_server 404) initial_globals example_base example_heap
                  example_request)) =
     Some (\<lparr>Timeout = Second * 30\<rparr>,
           wire_headers initial_globals example_request
             (example_wire Map.empty (wire_body initial_globals example_heap example_request)))"
    by (rule Get_example_issued)
  have d: "Do (example_server 404) \<lparr>Timeout = Second * 30\<rparr>
        (wire_headers initial_globals example_request
             (example_wire Map.empty (wire_body initial_globals example_heap example_request)))
       = Inr \<lparr>StatusCode = 404, RespBody = ''{}''\<rparr>"
    by (rule example_Do)
  from Get_result_D [OF i d] show ?thesis by (simp add: status_result_def)
qed

section \<open>Facts about \<^verbatim>\<open>New\<close>\<close>



text \<open>
  Claim C6.  For every key, \<^verbatim>\<open>New\<close> called with the address \<^verbatim>\<open>Yandex\<close> returns the client of
  the divergent dialect and a nil error.  The key is kept in the field \<^verbatim>\<open>apiKey\<close> of the
  client; it is appended to no address, the client holding no address at all, only the key
  and an HTTP client with the timeout.
\<close>

theorem New_Yandex_keeps_apiKey:
  "New g Yandex apiKey0 =
     (Some (YandexLocator \<lparr>apiKey = apiKey0, yandex_client = \<lparr>Timeout = RequestTimeout g\<rparr>\<rparr>),
      None)"
  by (simp add: New_def)

theorem New_Yandex_keeps_apiKey_witness:
  "New initial_globals Yandex ''secret'' =
     (Some (YandexLocator \<lparr>apiKey = ''secret'', yandex_client = \<lparr>Timeout = 30000000000\<rparr>\<rparr>),
      None)"
  using New_Yandex_keeps_apiKey [of initial_globals "''secret''"]
  by (simp add: initial_globals_def Second_def)

lemma New_not_Yandex:
  "serviceUrl0 \<noteq> Yandex \<Longrightarrow>
   New g serviceUrl0 apiKey0 =
     (case ParseRequestURI (if apiKey0 \<noteq> [] then serviceUrl0 @ ''?key='' @ QueryEscape apiKey0
                            else serviceUrl0) of
        Inl err \<Rightarrow> (None, Some err)
      | Inr u \<Rightarrow>
          (Some (BaseLocator
                   \<lparr>serviceUrl = (if apiKey0 \<noteq> [] then serviceUrl0 @ ''?key='' @ QueryEscape apiKey0
                                  else serviceUrl0),
                    client = \<lparr>Timeout = RequestTimeout g\<rparr>\<rparr>), None))"
  by (simp add: New_def Let_def)

















section \<open>\<^verbatim>\<open>New\<close> and \<^verbatim>\<open>Get\<close> together\<close>

lemma New_base_client:
  "New g0 serviceUrl0 apiKey0 = (Some (BaseLocator l), None) \<Longrightarrow>
     client l = \<lparr>Timeout = RequestTimeout g0\<rparr>"
  by (auto simp: New_def Let_def split: if_splits sum.splits)

lemma ParseRequestURI_example:
  "ParseRequestURI ''https://location.services.mozilla.com/v1/geolocate?key=abc123'' =
     Inr \<lparr>Scheme = ''https'', Opaque = [], User = None,
          Host = ''location.services.mozilla.com'', Path = ''/v1/geolocate'', RawPath = [],
          OmitHost = False, ForceQuery = False, RawQuery = ''key=abc123'', Fragment = [],
          RawFragment = []\<rparr>"
  by code_simp

lemma QueryEscape_abc123: "QueryEscape ''abc123'' = ''abc123''"
  by code_simp

lemma Mozilla_not_Yandex: "Mozilla \<noteq> Yandex"
  by (simp add: Mozilla_def Yandex_def)

lemma New_Mozilla_abc123:
  "New g Mozilla ''abc123'' =
     (Some (BaseLocator \<lparr>serviceUrl = Mozilla @ ''?key=abc123'',
                          client = \<lparr>Timeout = RequestTimeout g\<rparr>\<rparr>), None)"
  by (simp add: New_def Mozilla_not_Yandex QueryEscape_abc123)
     (simp add: Mozilla_def ParseRequestURI_example)

lemma New_example_base:
  "New initial_globals Mozilla ''abc123'' = (Some (BaseLocator example_base), None)"
  by (simp add: New_Mozilla_abc123 example_base_def initial_globals_def)

text \<open>
  Claim C3 says that the request timeout, the flag \<^verbatim>\<open>IgnoreIPMethod\<close> and the user agent
  are all read when \<^verbatim>\<open>Get\<close> is called.  The timeout is not: \<^verbatim>\<open>New\<close> copies
  \<^verbatim>\<open>RequestTimeout\<close> into the HTTP client it makes (lines 50 and 64), and \<^verbatim>\<open>Get\<close> uses that
  client.  Here the client is made under the initial globals (30 seconds), the global is
  then set to 5 seconds, and the call still goes out through a client whose timeout is 30
  seconds.
\<close>

theorem Get_timeout_not_read_at_call_counterexample:
  "New initial_globals Mozilla ''abc123'' = (Some (BaseLocator example_base), None)
   \<and> issued (snd (Get (example_server 200)
                    (initial_globals\<lparr>RequestTimeout := Second * 5\<rparr>)
                    example_base example_heap example_request)) =
       Some (\<lparr>Timeout = Second * 30\<rparr>,
             wire_headers (initial_globals\<lparr>RequestTimeout := Second * 5\<rparr>) example_request
               (example_wire Map.empty
                  (wire_body (initial_globals\<lparr>RequestTimeout := Second * 5\<rparr>) example_heap
                     example_request)))
   \<and> RequestTimeout (initial_globals\<lparr>RequestTimeout := Second * 5\<rparr>) = Second * 5
   \<and> Second * 30 \<noteq> Second * 5"
  by (simp add: New_example_base Get_example_issued Second_def)

text \<open>
  Claim C3 as amended.  For a client made by \<^verbatim>\<open>New\<close> under the globals \<open>g0\<close> and a call of
  \<^verbatim>\<open>Get\<close> under the globals \<open>g\<close>: the timeout of the HTTP client that carries the call is
  the \<^verbatim>\<open>RequestTimeout\<close> of \<open>g0\<close>, the value at construction; the header \<^verbatim>\<open>User-Agent\<close> is
  the \<^verbatim>\<open>UserAgent\<close> of \<open>g\<close>, and \<^verbatim>\<open>ConsiderIp\<close> and \<^verbatim>\<open>Fallbacks\<close> of the body follow the
  \<^verbatim>\<open>IgnoreIPMethod\<close> of \<open>g\<close>, the values at the time of the call.
\<close>

theorem Get_reads_globals:
  assumes "New g0 serviceUrl0 apiKey0 = (Some (BaseLocator l), None)"
      and "issued (snd (Get w g l h req)) = Some (c, r)"
  shows "Timeout c = RequestTimeout g0
       \<and> Header r ''User-Agent'' = Some [UserAgent g]
       \<and> jConsiderIp (Body r) = (\<not> IgnoreIPMethod g)
       \<and> jFallbacks (Body r) =
           (if IgnoreIPMethod g then Some \<lparr>LAC = False, IP = False\<rparr>
            else case Fallbacks req of
                   None \<Rightarrow> None
                 | Some p \<Rightarrow> if p < length h then Some (h ! p) else None)"
proof -
  from Get_issued_D [OF assms(2)] have "c = client l" by simp
  with New_base_client [OF assms(1)] have "Timeout c = RequestTimeout g0" by simp
  moreover have "Header r ''User-Agent'' = Some [UserAgent g]"
    by (simp add: Get_issued_Header [OF assms(2)])
  moreover have "jConsiderIp (Body r) = (\<not> IgnoreIPMethod g)"
    by (simp add: Get_issued_Body [OF assms(2)] wire_body_def)
  moreover have "jFallbacks (Body r) =
           (if IgnoreIPMethod g then Some \<lparr>LAC = False, IP = False\<rparr>
            else case Fallbacks req of
                   None \<Rightarrow> None
                 | Some p \<Rightarrow> if p < length h then Some (h ! p) else None)"
    by (simp add: Get_issued_Body [OF assms(2)] wire_body_def)
  ultimately show ?thesis by blast
qed

theorem Get_reads_globals_witness:
  "New initial_globals Mozilla ''abc123'' = (Some (BaseLocator example_base), None)
   \<and> issued (snd (Get (example_server 200) later_globals example_base example_heap
                    example_request)) =
       Some (\<lparr>Timeout = Second * 30\<rparr>,
             wire_headers later_globals example_request
               (example_wire Map.empty (wire_body later_globals example_heap example_request)))
   \<and> RequestTimeout initial_globals = Second * 30
   \<and> RequestTimeout later_globals = Second * 5
   \<and> Header (wire_headers later_globals example_request
               (example_wire Map.empty (wire_body later_globals example_heap example_request)))
        ''User-Agent'' = Some [''Other/2.0'']
   \<and> jConsiderIp (Body (wire_headers later_globals example_request
               (example_wire Map.empty (wire_body later_globals example_heap example_request))))
       = False
   \<and> jFallbacks (Body (wire_headers later_globals example_request
               (example_wire Map.empty (wire_body later_globals example_heap example_request))))
       = Some \<lparr>LAC = False, IP = False\<rparr>"
proof -
  have n: "New initial_globals Mozilla ''abc123'' = (Some (BaseLocator example_base), None)"
    by (rule New_example_base)
  have i: "issued (snd (Get (example_server 200) later_globals example_base example_heap
                    example_request)) =
       Some (\<lparr>Timeout = Second * 30\<rparr>,
             wire_headers later_globals example_request
               (example_wire Map.empty (wire_body later_globals example_heap example_request)))"
    by (rule Get_example_issued)
  have g: "RequestTimeout initial_globals = Second * 30"
    "RequestTimeout later_globals = Second * 5" "UserAgent later_globals = ''Other/2.0''"
    "IgnoreIPMethod later_globals"
    by (simp_all add: initial_globals_def later_globals_def)
  from Get_reads_globals [OF n i] n i g show ?thesis by simp
qed

lemma Get_Mozilla_key_issued:
  "serviceUrl l = Mozilla @ ''?key=abc123'' \<Longrightarrow>
   issued (snd (Get w g l h req)) =
     Some (client l, wire_headers g req (example_wire Map.empty (wire_body g h req)))"
  using NewRequest_example [of "wire_body g h req"]
  by (simp add: Get_parts example_base_def split: sum.split)

lemma example_wire_RawQuery:
  "RawQuery (URL (wire_headers g req (example_wire hdr b))) = ''key=abc123''"
  by (simp add: wire_headers_URL example_wire_def)

lemma upperhex_not_mark: "upperhex n \<noteq> CHR ''?'' \<and> upperhex n \<noteq> CHR ''#''"
proof -
  have "n mod 16 < length ''0123456789ABCDEF''" by simp
  then have "upperhex n \<in> set ''0123456789ABCDEF''"
    unfolding upperhex_def by (rule nth_mem)
  then show ?thesis by auto
qed

lemma shouldEscape_marks:
  "shouldEscape CHR ''?'' encodeQueryComponent" "shouldEscape CHR ''#'' encodeQueryComponent"
  by code_simp+

lemma QueryEscape_no_marks:
  "c \<in> set (QueryEscape k) \<Longrightarrow> c \<noteq> CHR ''?'' \<and> c \<noteq> CHR ''#''"
  using upperhex_not_mark shouldEscape_marks
  by (auto simp: QueryEscape_def escape_def split: if_splits)

lemma QueryEscape_not_empty: "k \<noteq> [] \<Longrightarrow> QueryEscape k \<noteq> []"
  by (cases k) (auto simp: QueryEscape_def escape_def)

lemma question_mark_class:
  "\<not> is_lower CHR ''?''" "\<not> is_upper CHR ''?''" "\<not> is_digit CHR ''?''"
  by code_simp+

lemma getScheme_loop_rest:
  "CHR ''?'' \<notin> set a \<Longrightarrow> getScheme_loop raw pre (a @ CHR ''?'' # b) = Inr (s, rest) \<Longrightarrow>
     rest = raw \<or> (\<exists>a'. rest = a' @ CHR ''?'' # b \<and> CHR ''?'' \<notin> set a')"
proof (induction a arbitrary: pre)
  case Nil
  then show ?case by (simp add: question_mark_class)
next
  case (Cons c a)
  then show ?case by (auto split: if_splits)
qed

lemma getScheme_rest:
  assumes "CHR ''?'' \<notin> set a" and "getScheme (a @ CHR ''?'' # b) = Inr (s, rest)"
  shows "\<exists>a'. rest = a' @ CHR ''?'' # b \<and> CHR ''?'' \<notin> set a'"
  using getScheme_loop_rest [OF assms(1) assms(2) [unfolded getScheme_def]] assms(1)
  by auto

lemma Cut_first:
  assumes "sep \<notin> set a"
  shows "Cut (a @ sep # b) sep = (a, b, True)"
proof -
  have "takeWhile (\<lambda>c. c \<noteq> sep) (a @ sep # b) = a"
    using assms by (induction a) auto
  moreover have "dropWhile (\<lambda>c. c \<noteq> sep) (a @ sep # b) = sep # b"
    using assms by (induction a) auto
  ultimately show ?thesis by (simp add: Cut_def)
qed

lemma Cut_absent: "sep \<notin> set s \<Longrightarrow> Cut s sep = (s, [], False)"
  by (simp add: Cut_def)

lemma HasSuffix_last:
  assumes "q \<noteq> []" and "last q \<noteq> c"
  shows "\<not> HasSuffix (a @ x # q) [c]"
proof
  assume h: "HasSuffix (a @ x # q) [c]"
  have "a @ x # q = (a @ x # butlast q) @ [last q]" using assms(1) by simp
  then have "drop (length (a @ x # q) - 1) (a @ x # q) = [last q]"
    by (metis append_eq_conv_conj length_append_singleton diff_Suc_1 length_butlast
          butlast_snoc snoc_eq_iff_butlast)
  with h assms(2) show False by (simp add: HasSuffix_def)
qed

lemma setPath_RawQuery: "setPath u p = Inr u' \<Longrightarrow> RawQuery u' = RawQuery u"
  by (auto simp: setPath_def split: sum.splits)

lemma parse_rest_RawQuery:
  "parse_rest url rest v = Inr url' \<Longrightarrow> RawQuery url' = RawQuery url"
  by (auto simp: parse_rest_def Let_def split: if_splits sum.splits prod.splits
        dest!: setPath_RawQuery)


lemma parse_RawQuery:
  assumes a: "CHR ''?'' \<notin> set a" and q: "q \<noteq> []" "CHR ''?'' \<notin> set q"
      and p: "parse (a @ CHR ''?'' # q) v = Inr url"
  shows "RawQuery url = q"
proof -
  let ?raw = "a @ CHR ''?'' # q"
  have star: "?raw \<noteq> ''*''" using q by (cases a) auto
  from p star obtain s rest where g: "getScheme ?raw = Inr (s, rest)"
    by (auto simp: parse_def split: if_splits sum.splits)
  from getScheme_rest [OF a g] obtain a' where
    rest: "rest = a' @ CHR ''?'' # q" and a': "CHR ''?'' \<notin> set a'"
    by blast
  have "last q \<in> set q" using q(1) by simp
  with q(2) have "last q \<noteq> CHR ''?''" by metis
  from HasSuffix_last [OF q(1) this] have ns: "\<not> HasSuffix rest ''?''"
    unfolding rest .
  from p star g ns have
    "parse_rest (new_URL\<lparr>Scheme := ToLower s, RawQuery := q\<rparr>) a' v = Inr url"
    by (simp add: parse_def rest Cut_first [OF a'] split: if_splits)
  from parse_rest_RawQuery [OF this] show ?thesis by simp
qed

lemma setFragment_RawQuery: "setFragment u f = Inr u' \<Longrightarrow> RawQuery u' = RawQuery u"
  by (auto simp: setFragment_def split: sum.splits)

lemma Parse_RawQuery:
  assumes a: "CHR ''?'' \<notin> set a" "CHR ''#'' \<notin> set a"
      and q: "q \<noteq> []" "CHR ''?'' \<notin> set q" "CHR ''#'' \<notin> set q"
      and p: "Parse (a @ CHR ''?'' # q) = Inr url"
  shows "RawQuery url = q"
proof -
  have "CHR ''#'' \<notin> set (a @ CHR ''?'' # q)" using a(2) q(3) by simp
  from Cut_absent [OF this] p
  have "parse (a @ CHR ''?'' # q) False = Inr url"
    by (simp add: Parse_def split: sum.splits)
  from parse_RawQuery [OF a(1) q(1) q(2) this] show ?thesis .
qed

lemma NewRequest_RawQuery:
  "http_NewRequest m s b = Inr r \<Longrightarrow> \<exists>u. Parse s = Inr u \<and> RawQuery (URL r) = RawQuery u"
  by (auto simp: http_NewRequest_def Let_def split: if_splits sum.splits)

lemma Get_key_in_query:
  assumes u: "serviceUrl0 \<noteq> Yandex" "CHR ''?'' \<notin> set serviceUrl0"
             "CHR ''#'' \<notin> set serviceUrl0"
      and k: "apiKey0 \<noteq> []"
      and n: "New g0 serviceUrl0 apiKey0 = (Some (BaseLocator l), None)"
      and i: "issued (snd (Get w g l h req)) = Some (c, r)"
  shows "RawQuery (URL r) = ''key='' @ QueryEscape apiKey0"
proof -
  from n u(1) k have l: "serviceUrl l = serviceUrl0 @ ''?key='' @ QueryEscape apiKey0"
    by (auto simp: New_not_Yandex split: sum.splits)
  from Get_issued_D [OF i] obtain x
    where x: "http_NewRequest ''POST'' (serviceUrl l) (wire_body g h req) = Inr x"
      and r: "r = wire_headers g req x"
    by blast
  from NewRequest_RawQuery [OF x] obtain url
    where p: "Parse (serviceUrl l) = Inr url" and rq: "RawQuery (URL x) = RawQuery url"
    by blast
  have q: "''key='' @ QueryEscape apiKey0 \<noteq> []"
    "CHR ''?'' \<notin> set (''key='' @ QueryEscape apiKey0)"
    "CHR ''#'' \<notin> set (''key='' @ QueryEscape apiKey0)"
    using QueryEscape_no_marks [of _ apiKey0] by auto
  from p have "Parse (serviceUrl0 @ CHR ''?'' # (''key='' @ QueryEscape apiKey0)) = Inr url"
    by (simp add: l)
  from Parse_RawQuery [OF u(2) u(3) q this] have "RawQuery url = ''key='' @ QueryEscape apiKey0" .
  then show ?thesis by (simp add: r wire_headers_URL rq)
qed

text \<open>
  Claim C7 says that for every address the key ends up as a query parameter of the URL.
  \<^verbatim>\<open>New\<close> appends text to the address without looking at it (line 55).  For the address
  \<^verbatim>\<open>http://host/p#frag\<close> and the key \<^verbatim>\<open>k\<close> the client's address is
  \<^verbatim>\<open>http://host/p#frag?key=k\<close>, and the request that \<^verbatim>\<open>Get\<close> builds from it has an empty
  query, the key lying in the fragment; for \<^verbatim>\<open>http://host/p?a=1\<close> the query is
  \<^verbatim>\<open>a=1?key=k\<close>, the key lying in the value of the parameter \<^verbatim>\<open>a\<close>.
\<close>

theorem New_key_outside_query_counterexample:
  "''http://host/p#frag'' \<noteq> Yandex
   \<and> New initial_globals ''http://host/p#frag'' ''k'' =
       (Some (BaseLocator \<lparr>serviceUrl = ''http://host/p#frag?key=k'',
                            client = \<lparr>Timeout = 30000000000\<rparr>\<rparr>), None)
   \<and> issued (snd (Get (example_server 200) initial_globals
                    \<lparr>serviceUrl = ''http://host/p#frag?key=k'',
                     client = \<lparr>Timeout = 30000000000\<rparr>\<rparr>
                    example_heap example_request)) =
       Some (\<lparr>Timeout = 30000000000\<rparr>,
             wire_headers initial_globals example_request
               \<lparr>Method = ''POST'',
                URL = \<lparr>Scheme = ''http'', Opaque = [], User = None, Host = ''host'',
                       Path = ''/p'', RawPath = [], OmitHost = False, ForceQuery = False,
                       RawQuery = [], Fragment = ''frag?key=k'', RawFragment = []\<rparr>,
                Header = Map.empty,
                Body = wire_body initial_globals example_heap example_request,
                ReqHost = ''host''\<rparr>)
   \<and> RawQuery (URL (wire_headers initial_globals example_request
               \<lparr>Method = ''POST'',
                URL = \<lparr>Scheme = ''http'', Opaque = [], User = None, Host = ''host'',
                       Path = ''/p'', RawPath = [], OmitHost = False, ForceQuery = False,
                       RawQuery = [], Fragment = ''frag?key=k'', RawFragment = []\<rparr>,
                Header = Map.empty,
                Body = wire_body initial_globals example_heap example_request,
                ReqHost = ''host''\<rparr>)) = []
   \<and> ''http://host/p?a=1'' \<noteq> Yandex
   \<and> New initial_globals ''http://host/p?a=1'' ''k'' =
       (Some (BaseLocator \<lparr>serviceUrl = ''http://host/p?a=1?key=k'',
                            client = \<lparr>Timeout = 30000000000\<rparr>\<rparr>), None)
   \<and> Parse ''http://host/p?a=1?key=k'' =
       Inr \<lparr>Scheme = ''http'', Opaque = [], User = None, Host = ''host'', Path = ''/p'',
            RawPath = [], OmitHost = False, ForceQuery = False, RawQuery = ''a=1?key=k'',
            Fragment = [], RawFragment = []\<rparr>"
proof -
  let ?l = "\<lparr>serviceUrl = ''http://host/p#frag?key=k'',
             client = \<lparr>Timeout = 30000000000\<rparr>\<rparr>"
  let ?x = "\<lparr>Method = ''POST'',
                URL = \<lparr>Scheme = ''http'', Opaque = [], User = None, Host = ''host'',
                       Path = ''/p'', RawPath = [], OmitHost = False, ForceQuery = False,
                       RawQuery = [], Fragment = ''frag?key=k'', RawFragment = []\<rparr>,
                Header = Map.empty,
                Body = wire_body initial_globals example_heap example_request,
                ReqHost = ''host''\<rparr>"
  have ne: "''http://host/p#frag'' \<noteq> Yandex" "''http://host/p?a=1'' \<noteq> Yandex"
    by (simp_all add: Yandex_def)
  have esc: "QueryEscape ''k'' = ''k''" by code_simp
  have p1: "ParseRequestURI ''http://host/p#frag?key=k'' =
      Inr \<lparr>Scheme = ''http'', Opaque = [], User = None, Host = ''host'',
           Path = ''/p#frag'', RawPath = ''/p#frag'', OmitHost = False,
           ForceQuery = False, RawQuery = ''key=k'', Fragment = [], RawFragment = []\<rparr>"
    by code_simp
  have p2: "Parse ''http://host/p#frag?key=k'' =
      Inr \<lparr>Scheme = ''http'', Opaque = [], User = None, Host = ''host'',
           Path = ''/p'', RawPath = [], OmitHost = False, ForceQuery = False,
           RawQuery = [], Fragment = ''frag?key=k'', RawFragment = []\<rparr>"
    by code_simp
  have p3: "ParseRequestURI ''http://host/p?a=1?key=k'' =
       Inr \<lparr>Scheme = ''http'', Opaque = [], User = None, Host = ''host'', Path = ''/p'',
            RawPath = [], OmitHost = False, ForceQuery = False, RawQuery = ''a=1?key=k'',
            Fragment = [], RawFragment = []\<rparr>"
    by code_simp
  have p4: "Parse ''http://host/p?a=1?key=k'' =
       Inr \<lparr>Scheme = ''http'', Opaque = [], User = None, Host = ''host'', Path = ''/p'',
            RawPath = [], OmitHost = False, ForceQuery = False, RawQuery = ''a=1?key=k'',
            Fragment = [], RawFragment = []\<rparr>"
    by code_simp
  have rp: "removeEmptyPort ''host'' = ''host''" by code_simp
  have n1: "New initial_globals ''http://host/p#frag'' ''k'' = (Some (BaseLocator ?l), None)"
    by (simp add: New_not_Yandex ne esc p1 initial_globals_def Second_def)
  have n2: "New initial_globals ''http://host/p?a=1'' ''k'' =
       (Some (BaseLocator \<lparr>serviceUrl = ''http://host/p?a=1?key=k'',
                            client = \<lparr>Timeout = 30000000000\<rparr>\<rparr>), None)"
    by (simp add: New_not_Yandex ne esc p3 initial_globals_def Second_def)
  have nr: "http_NewRequest ''POST'' (serviceUrl ?l)
              (wire_body initial_globals example_heap example_request) = Inr ?x"
    by (simp add: http_NewRequest_def validMethod_POST p2 rp)
  have i: "issued (snd (Get (example_server 200) initial_globals ?l example_heap
                          example_request)) =
             Some (\<lparr>Timeout = 30000000000\<rparr>, wire_headers initial_globals example_request ?x)"
    using nr by (simp add: Get_parts example_server_def split: sum.split)
  have r: "RawQuery (URL (wire_headers initial_globals example_request ?x)) = []"
    by (simp add: wire_headers_URL)
  from ne n1 i r n2 p4 show ?thesis by blast
qed

text \<open>
  Claim C7 as amended.  For every address other than \<^verbatim>\<open>Yandex\<close> and every key that is
  not empty, \<^verbatim>\<open>New\<close> works on the address followed by \<^verbatim>\<open>?key=\<close> and the key escaped by
  \<^verbatim>\<open>url.QueryEscape\<close>: that is the text it validates and, when valid, the address of the
  client it returns.  When the address given has no \<^verbatim>\<open>?\<close> and no \<^verbatim>\<open>#\<close> of its own, every
  request that \<^verbatim>\<open>Get\<close> of the client gives to the HTTP client has exactly \<^verbatim>\<open>key=\<close> and
  the escaped key as its query string.  In particular \<^verbatim>\<open>New(Mozilla, "abc123")\<close> returns a
  client for the address of Mozilla followed by \<^verbatim>\<open>?key=abc123\<close>, and the requests of that
  client have the query string \<^verbatim>\<open>key=abc123\<close>.
\<close>

theorem New_appends_key:
  "(serviceUrl0 \<noteq> Yandex \<longrightarrow> apiKey0 \<noteq> [] \<longrightarrow>
      New g serviceUrl0 apiKey0 =
        (case ParseRequestURI (serviceUrl0 @ ''?key='' @ QueryEscape apiKey0) of
           Inl err \<Rightarrow> (None, Some err)
         | Inr u \<Rightarrow>
             (Some (BaseLocator
                      \<lparr>serviceUrl = serviceUrl0 @ ''?key='' @ QueryEscape apiKey0,
                       client = \<lparr>Timeout = RequestTimeout g\<rparr>\<rparr>), None)))
   \<and> (serviceUrl0 \<noteq> Yandex \<longrightarrow> apiKey0 \<noteq> [] \<longrightarrow>
        CHR ''?'' \<notin> set serviceUrl0 \<longrightarrow> CHR ''#'' \<notin> set serviceUrl0 \<longrightarrow>
        New g serviceUrl0 apiKey0 = (Some (BaseLocator l), None) \<longrightarrow>
        issued (snd (Get w g' l h req)) = Some (c, r) \<longrightarrow>
        RawQuery (URL r) = ''key='' @ QueryEscape apiKey0)
   \<and> New g Mozilla ''abc123'' =
       (Some (BaseLocator \<lparr>serviceUrl = Mozilla @ ''?key=abc123'',
                            client = \<lparr>Timeout = RequestTimeout g\<rparr>\<rparr>), None)
   \<and> issued (snd (Get w g' \<lparr>serviceUrl = Mozilla @ ''?key=abc123'',
                             client = \<lparr>Timeout = RequestTimeout g\<rparr>\<rparr> h req)) =
       Some (\<lparr>Timeout = RequestTimeout g\<rparr>,
             wire_headers g' req (example_wire Map.empty (wire_body g' h req)))
   \<and> RawQuery (URL (wire_headers g' req (example_wire Map.empty (wire_body g' h req))))
       = ''key=abc123''"
proof -
  have "serviceUrl0 \<noteq> Yandex \<longrightarrow> apiKey0 \<noteq> [] \<longrightarrow>
      New g serviceUrl0 apiKey0 =
        (case ParseRequestURI (serviceUrl0 @ ''?key='' @ QueryEscape apiKey0) of
           Inl err \<Rightarrow> (None, Some err)
         | Inr u \<Rightarrow>
             (Some (BaseLocator
                      \<lparr>serviceUrl = serviceUrl0 @ ''?key='' @ QueryEscape apiKey0,
                       client = \<lparr>Timeout = RequestTimeout g\<rparr>\<rparr>), None))"
    by (simp add: New_not_Yandex)
  moreover have "serviceUrl0 \<noteq> Yandex \<longrightarrow> apiKey0 \<noteq> [] \<longrightarrow>
        CHR ''?'' \<notin> set serviceUrl0 \<longrightarrow> CHR ''#'' \<notin> set serviceUrl0 \<longrightarrow>
        New g serviceUrl0 apiKey0 = (Some (BaseLocator l), None) \<longrightarrow>
        issued (snd (Get w g' l h req)) = Some (c, r) \<longrightarrow>
        RawQuery (URL r) = ''key='' @ QueryEscape apiKey0"
    using Get_key_in_query by blast
  moreover have "New g Mozilla ''abc123'' =
       (Some (BaseLocator \<lparr>serviceUrl = Mozilla @ ''?key=abc123'',
                            client = \<lparr>Timeout = RequestTimeout g\<rparr>\<rparr>), None)"
    by (rule New_Mozilla_abc123)
  moreover have "issued (snd (Get w g' \<lparr>serviceUrl = Mozilla @ ''?key=abc123'',
                             client = \<lparr>Timeout = RequestTimeout g\<rparr>\<rparr> h req)) =
       Some (\<lparr>Timeout = RequestTimeout g\<rparr>,
             wire_headers g' req (example_wire Map.empty (wire_body g' h req)))"
    by (simp add: Get_Mozilla_key_issued)
  moreover have
    "RawQuery (URL (wire_headers g' req (example_wire Map.empty (wire_body g' h req))))
       = ''key=abc123''"
    by (rule example_wire_RawQuery)
  ultimately show ?thesis by blast
qed

theorem New_appends_key_witness:
  "Google \<noteq> Yandex
   \<and> CHR ''?'' \<notin> set Google \<and> CHR ''#'' \<notin> set Google
   \<and> QueryEscape ''a b&c'' = ''a+b%26c''
   \<and> New initial_globals Google ''a b&c'' =
       (Some (BaseLocator
                \<lparr>serviceUrl = ''https://www.googleapis.com/geolocation/v1/geolocate?key=a+b%26c'',
                 client = \<lparr>Timeout = 30000000000\<rparr>\<rparr>), None)
   \<and> issued (snd (Get (example_server 200) later_globals
                    \<lparr>serviceUrl =
                       ''https://www.googleapis.com/geolocation/v1/geolocate?key=a+b%26c'',
                     client = \<lparr>Timeout = 30000000000\<rparr>\<rparr>
                    example_heap example_request)) =
       Some (\<lparr>Timeout = 30000000000\<rparr>,
             wire_headers later_globals example_request
               \<lparr>Method = ''POST'',
                URL = \<lparr>Scheme = ''https'', Opaque = [], User = None,
                       Host = ''www.googleapis.com'', Path = ''/geolocation/v1/geolocate'',
                       RawPath = [], OmitHost = False, ForceQuery = False,
                       RawQuery = ''key=a+b%26c'', Fragment = [], RawFragment = []\<rparr>,
                Header = Map.empty,
                Body = wire_body later_globals example_heap example_request,
                ReqHost = ''www.googleapis.com''\<rparr>)
   \<and> RawQuery (URL (wire_headers later_globals example_request
               \<lparr>Method = ''POST'',
                URL = \<lparr>Scheme = ''https'', Opaque = [], User = None,
                       Host = ''www.googleapis.com'', Path = ''/geolocation/v1/geolocate'',
                       RawPath = [], OmitHost = False, ForceQuery = False,
                       RawQuery = ''key=a+b%26c'', Fragment = [], RawFragment = []\<rparr>,
                Header = Map.empty,
                Body = wire_body later_globals example_heap example_request,
                ReqHost = ''www.googleapis.com''\<rparr>)) = ''key=a+b%26c''"
proof -
  let ?l = "\<lparr>serviceUrl = ''https://www.googleapis.com/geolocation/v1/geolocate?key=a+b%26c'',
             client = \<lparr>Timeout = 30000000000\<rparr>\<rparr>"
  let ?x = "\<lparr>Method = ''POST'',
             URL = \<lparr>Scheme = ''https'', Opaque = [], User = None,
                    Host = ''www.googleapis.com'', Path = ''/geolocation/v1/geolocate'',
                    RawPath = [], OmitHost = False, ForceQuery = False,
                    RawQuery = ''key=a+b%26c'', Fragment = [], RawFragment = []\<rparr>,
             Header = Map.empty,
             Body = wire_body later_globals example_heap example_request,
             ReqHost = ''www.googleapis.com''\<rparr>"
  have ne: "Google \<noteq> Yandex" "''a b&c'' \<noteq> []" "CHR ''?'' \<notin> set Google"
    "CHR ''#'' \<notin> set Google"
    by (simp_all add: Google_def Yandex_def)
  have esc: "QueryEscape ''a b&c'' = ''a+b%26c''" by code_simp
  have p: "ParseRequestURI
             ''https://www.googleapis.com/geolocation/v1/geolocate?key=a+b%26c'' =
           Inr \<lparr>Scheme = ''https'', Opaque = [], User = None, Host = ''www.googleapis.com'',
                Path = ''/geolocation/v1/geolocate'', RawPath = [], OmitHost = False,
                ForceQuery = False, RawQuery = ''key=a+b%26c'', Fragment = [],
                RawFragment = []\<rparr>"
    by code_simp
  have p': "Parse ''https://www.googleapis.com/geolocation/v1/geolocate?key=a+b%26c'' =
           Inr \<lparr>Scheme = ''https'', Opaque = [], User = None, Host = ''www.googleapis.com'',
                Path = ''/geolocation/v1/geolocate'', RawPath = [], OmitHost = False,
                ForceQuery = False, RawQuery = ''key=a+b%26c'', Fragment = [],
                RawFragment = []\<rparr>"
    by code_simp
  have rp: "removeEmptyPort ''www.googleapis.com'' = ''www.googleapis.com''" by code_simp
  have g: "Google @ ''?key=a+b%26c'' =
           ''https://www.googleapis.com/geolocation/v1/geolocate?key=a+b%26c''"
    by (simp add: Google_def)
  have nr: "http_NewRequest ''POST'' (serviceUrl ?l)
              (wire_body later_globals example_heap example_request) = Inr ?x"
    by (simp add: http_NewRequest_def validMethod_POST p' rp)
  have i: "issued (snd (Get (example_server 200) later_globals ?l example_heap
                          example_request)) =
             Some (\<lparr>Timeout = 30000000000\<rparr>, wire_headers later_globals example_request ?x)"
    using nr by (simp add: Get_parts example_server_def split: sum.split)
  have n: "New initial_globals Google ''a b&c'' = (Some (BaseLocator ?l), None)"
    using New_appends_key [of Google "''a b&c''" initial_globals] ne esc p g
    by (simp add: initial_globals_def Second_def)
  from New_appends_key
    [of Google "''a b&c''" initial_globals ?l "example_server 200" later_globals
        example_heap example_request "\<lparr>Timeout = 30000000000\<rparr>"
        "wire_headers later_globals example_request ?x"]
    ne esc n i
  show ?thesis by simp
qed

text \<open>
  Claim C10.  \<^verbatim>\<open>Get\<close> takes the request by value and changes only its own copy.  What
  the caller can still see of it is the store behind the pointer \<^verbatim>\<open>Fallbacks\<close>: every cell
  that existed before the call holds the same value after it (the store after the call
  starts with the store before it; the new \<^verbatim>\<open>Fallbacks\<close> of line 73 is a new cell), so
  nothing is written through a pointer the caller supplied, and the caller's request, read
  with the store after the call, encodes to what it encoded to before the call.
\<close>

theorem Get_leaves_callers_data:
  "take (length h) (heap_after (snd (Get w g l h req))) = h
   \<and> (\<forall>p < length h. heap_after (snd (Get w g l h req)) ! p = h ! p)
   \<and> ((case Fallbacks req of None \<Rightarrow> True | Some p \<Rightarrow> p < length h) \<longrightarrow>
        json_Marshal (heap_after (snd (Get w g l h req))) req = json_Marshal h req)"
  by (auto simp: Get_heap_after store_after_def json_Marshal_def nth_append split: option.splits)

theorem Get_leaves_callers_data_witness:
  "Fallbacks example_request = Some 0 \<and> 0 < length example_heap
   \<and> heap_after (snd (Get (example_server 200) later_globals example_base example_heap
                        example_request))
       = [\<lparr>LAC = True, IP = True\<rparr>, \<lparr>LAC = False, IP = False\<rparr>]
   \<and> take (length example_heap)
        (heap_after (snd (Get (example_server 200) later_globals example_base example_heap
                           example_request))) = example_heap
   \<and> heap_after (snd (Get (example_server 200) later_globals example_base example_heap
                        example_request)) ! 0 = \<lparr>LAC = True, IP = True\<rparr>
   \<and> json_Marshal
        (heap_after (snd (Get (example_server 200) later_globals example_base example_heap
                           example_request))) example_request
       = json_Marshal example_heap example_request
   \<and> jFallbacks (projr (json_Marshal example_heap example_request))
       = Some \<lparr>LAC = True, IP = True\<rparr>"
proof -
  have e: "Fallbacks example_request = Some 0" "0 < length example_heap"
    "example_heap ! 0 = \<lparr>LAC = True, IP = True\<rparr>"
    unfolding example_request_def example_heap_def by simp_all
  have a: "heap_after (snd (Get (example_server 200) later_globals example_base example_heap
                        example_request))
       = [\<lparr>LAC = True, IP = True\<rparr>, \<lparr>LAC = False, IP = False\<rparr>]"
    by (simp add: Get_heap_after store_after_def later_globals_def example_heap_def)
  have m: "jFallbacks (projr (json_Marshal example_heap example_request))
       = Some \<lparr>LAC = True, IP = True\<rparr>"
    by (simp add: json_Marshal_def example_request_def example_heap_def)
  from Get_leaves_callers_data
    [of example_heap "example_server 200" later_globals example_base example_request] e m
  show ?thesis unfolding a by (simp add: example_heap_def)
qed

end
